theory Spec2Isabelle
  imports Main
begin

section \<open>Python values\<close>

text \<open>
  The handler \<open>create_product\<close> of \<open>create_product.py\<close> works on the value that
  \<open>request.get_json()\<close> returns: \<open>None\<close>, a bool, a number, a string, a list or a
  dict with string keys. A character is a code point below 256, so a string is text of
  the Latin-1 range. A dict is an association list read with \<open>map_of\<close> (one binding
  per key). An integer is one that the decoder and \<open>str()\<close> handle (at most 4300
  digits by default). A Python float is kept as the text that \<open>str()\<close> gives for it
  (\<open>19.99\<close>, \<open>1e+16\<close>, \<open>inf\<close>, \<open>nan\<close>): the handler only ever converts a float
  to that text or passes it on unchanged.
\<close>

datatype json =
    JNull
  | JBool bool
  | JInt int
  | JFloat string
  | JStr string
  | JArr "json list"
  | JObj "(string \<times> json) list"

datatype exn =
    TypeError string
  | AttributeError string
  | KeyError string
  | InvalidOperation
  | IntegrityError string
  | OtherError string

text \<open>\<open>str(e)\<close> of an exception, as the 500 response prints it.\<close>

fun exn_str :: "exn \<Rightarrow> string" where
  "exn_str (TypeError m) = m"
| "exn_str (AttributeError m) = m"
| "exn_str (KeyError k) = [CHR 0x27] @ k @ [CHR 0x27]"
| "exn_str InvalidOperation = ''[<class 'decimal.InvalidOperation'>]''"
| "exn_str (IntegrityError m) = m"
| "exn_str (OtherError m) = m"

fun type_name :: "json \<Rightarrow> string" where
  "type_name JNull = ''NoneType''"
| "type_name (JBool _) = ''bool''"
| "type_name (JInt _) = ''int''"
| "type_name (JFloat _) = ''float''"
| "type_name (JStr _) = ''str''"
| "type_name (JArr _) = ''list''"
| "type_name (JObj _) = ''dict''"

subsection \<open>Characters and string methods\<close>

definition is_digit :: "char \<Rightarrow> bool" where
  "is_digit c = (c \<in> set ''0123456789'')"

text \<open>
  The code points below 256 for which \<open>str.isspace\<close> holds: 9 to 13, 28 to 32, 133
  (next line) and 160 (no-break space).
\<close>

definition is_space :: "char \<Rightarrow> bool" where
  "is_space c =
     (c \<in> {CHR 0x09, CHR 0x0A, CHR 0x0B, CHR 0x0C, CHR 0x0D,
            CHR 0x1C, CHR 0x1D, CHR 0x1E, CHR 0x1F, CHR 0x20, CHR 0x85, CHR 0xA0})"

text \<open>
  The lowercase letters below 256 whose capital is below 256 too, and their capitals:
  the ASCII letters, and 224 to 254 without the division sign 247.
\<close>

definition lower_letters :: string where
  "lower_letters =
     ''abcdefghijklmnopqrstuvwxyz'' @
     [CHR 0xE0, CHR 0xE1, CHR 0xE2, CHR 0xE3, CHR 0xE4, CHR 0xE5, CHR 0xE6, CHR 0xE7,
      CHR 0xE8, CHR 0xE9, CHR 0xEA, CHR 0xEB, CHR 0xEC, CHR 0xED, CHR 0xEE, CHR 0xEF,
      CHR 0xF0, CHR 0xF1, CHR 0xF2, CHR 0xF3, CHR 0xF4, CHR 0xF5, CHR 0xF6,
      CHR 0xF8, CHR 0xF9, CHR 0xFA, CHR 0xFB, CHR 0xFC, CHR 0xFD, CHR 0xFE]"

definition upper_letters :: string where
  "upper_letters =
     ''ABCDEFGHIJKLMNOPQRSTUVWXYZ'' @
     [CHR 0xC0, CHR 0xC1, CHR 0xC2, CHR 0xC3, CHR 0xC4, CHR 0xC5, CHR 0xC6, CHR 0xC7,
      CHR 0xC8, CHR 0xC9, CHR 0xCA, CHR 0xCB, CHR 0xCC, CHR 0xCD, CHR 0xCE, CHR 0xCF,
      CHR 0xD0, CHR 0xD1, CHR 0xD2, CHR 0xD3, CHR 0xD4, CHR 0xD5, CHR 0xD6,
      CHR 0xD8, CHR 0xD9, CHR 0xDA, CHR 0xDB, CHR 0xDC, CHR 0xDD, CHR 0xDE]"

definition upper_char :: "char \<Rightarrow> char" where
  "upper_char c = (case map_of (zip lower_letters upper_letters) c of Some u \<Rightarrow> u | None \<Rightarrow> c)"

text \<open>
  The conversion of a numeric text reads \<open>Inf\<close>, \<open>NaN\<close> and the exponent indicator
  in either case; only the ASCII letters take part.
\<close>

definition lower_char :: "char \<Rightarrow> char" where
  "lower_char c =
     (case map_of (zip ''ABCDEFGHIJKLMNOPQRSTUVWXYZ'' ''abcdefghijklmnopqrstuvwxyz'') c of
        Some l \<Rightarrow> l
      | None \<Rightarrow> c)"

text \<open>
  \<open>s.strip()\<close>, \<open>s.upper()\<close> and \<open>sep.join(xs)\<close>. \<open>upper\<close> writes the sharp s
  (223) as \<open>SS\<close>. The capitals of the micro sign (181) and of y with diaeresis (255)
  lie beyond 255: the two stay as they are here, and a text with one of them is outside
  what \<open>upper\<close> describes.
\<close>

definition strip :: "string \<Rightarrow> string" where
  "strip s = rev (dropWhile is_space (rev (dropWhile is_space s)))"

definition upper :: "string \<Rightarrow> string" where
  "upper s = concat (map (\<lambda>c. if c = CHR 0xDF then ''SS'' else [upper_char c]) s)"

definition lower :: "string \<Rightarrow> string" where
  "lower s = map lower_char s"

fun join :: "string \<Rightarrow> string list \<Rightarrow> string" where
  "join sep [] = []"
| "join sep [x] = x"
| "join sep (x # y # ys) = x @ sep @ join sep (y # ys)"

text \<open>\<open>k in s\<close> for two strings: \<open>k\<close> occurs in \<open>s\<close> as a contiguous run.\<close>

fun is_substring :: "string \<Rightarrow> string \<Rightarrow> bool" where
  "is_substring k [] = (k = [])"
| "is_substring k (c # cs) = (take (length k) (c # cs) = k \<or> is_substring k cs)"

subsection \<open>\<open>str()\<close> and \<open>repr()\<close>\<close>

definition digit_char :: "nat \<Rightarrow> char" where
  "digit_char d = ''0123456789'' ! d"

fun nat_str :: "nat \<Rightarrow> string" where
  "nat_str n = (if n < 10 then [digit_char n] else nat_str (n div 10) @ [digit_char (n mod 10)])"

declare nat_str.simps [simp del]

definition int_str :: "int \<Rightarrow> string" where
  "int_str i = (if i < 0 then CHR ''-'' # nat_str (nat (- i)) else nat_str (nat i))"

text \<open>The number of digits that \<open>str(i)\<close> writes for an integer.\<close>

definition int_digits :: "int \<Rightarrow> nat" where
  "int_digits i = length (nat_str (nat \<bar>i\<bar>))"

definition hex_char :: "nat \<Rightarrow> char" where
  "hex_char d = ''0123456789abcdef'' ! d"

text \<open>
  \<open>repr\<close> of a string: single quotes, unless the text has a single quote and no double
  quote; backslash, the chosen quote, tab, newline and carriage return are escaped, the
  other characters that are not printable (below 32, 127 to 160, 173) are written
  \<open>\xNN\<close>.
\<close>

definition repr_char :: "char \<Rightarrow> char \<Rightarrow> string" where
  "repr_char q c =
     (if c = CHR 0x5C then [CHR 0x5C, CHR 0x5C]
      else if c = q then [CHR 0x5C, q]
      else if c = CHR 0x09 then [CHR 0x5C, CHR ''t'']
      else if c = CHR 0x0A then [CHR 0x5C, CHR ''n'']
      else if c = CHR 0x0D then [CHR 0x5C, CHR ''r'']
      else if (of_char c :: nat) < 32 \<or>
              (127 \<le> (of_char c :: nat) \<and> (of_char c :: nat) \<le> 160) \<or>
              (of_char c :: nat) = 173
        then [CHR 0x5C, CHR ''x'', hex_char ((of_char c :: nat) div 16),
              hex_char ((of_char c :: nat) mod 16)]
      else [c])"

definition repr_str :: "string \<Rightarrow> string" where
  "repr_str s =
     (let q = (if CHR 0x27 \<in> set s \<and> CHR 0x22 \<notin> set s then CHR 0x22 else CHR 0x27)
      in [q] @ concat (map (repr_char q) s) @ [q])"

fun repr :: "json \<Rightarrow> string" where
  "repr JNull = ''None''"
| "repr (JBool b) = (if b then ''True'' else ''False'')"
| "repr (JInt i) = int_str i"
| "repr (JFloat t) = t"
| "repr (JStr s) = repr_str s"
| "repr (JArr xs) = ''['' @ join '', '' (map repr xs) @ '']''"
| "repr (JObj kvs) =
     ''{'' @ join '', '' (map (\<lambda>(k, v). repr_str k @ '': '' @ repr v) kvs) @ ''}''"

definition py_str :: "json \<Rightarrow> string" where
  "py_str v = (case v of JStr s \<Rightarrow> s | _ \<Rightarrow> repr v)"

section \<open>Exact decimals\<close>

text \<open>
  \<open>decimal.Decimal\<close>: a finite value is a sign, a coefficient and an exponent
  (\<open>Finite True 1999 (-2)\<close> is \<open>-19.99\<close>); besides there are the two infinities and
  the quiet and signalling NaNs with their payload.
\<close>

datatype decimal =
    Finite bool nat int
  | Infinite bool
  | NaN bool bool nat

definition digit_val :: "char \<Rightarrow> nat" where
  "digit_val c = (of_char c :: nat) - 48"

definition digits_val :: "string \<Rightarrow> nat" where
  "digits_val ds = foldl (\<lambda>n c. 10 * n + digit_val c) 0 ds"

definition split_sign :: "string \<Rightarrow> bool \<times> string" where
  "split_sign s =
     (case s of
        [] \<Rightarrow> (False, [])
      | c # cs \<Rightarrow> if c = CHR ''-'' then (True, cs)
                  else if c = CHR ''+'' then (False, cs)
                  else (False, s))"

text \<open>The text after the exponent indicator: an optional sign and at least one digit.\<close>

definition parse_exponent :: "string \<Rightarrow> int option" where
  "parse_exponent s =
     (case split_sign s of (neg, ds) \<Rightarrow>
        if ds \<noteq> [] \<and> list_all is_digit ds
        then Some (if neg then - int (digits_val ds) else int (digits_val ds))
        else None)"

text \<open>
  The limits of the decimal type on a 64-bit machine: the largest precision and the
  largest exponent, and the smallest exponent a value may carry (\<open>Etiny\<close> of the widest
  context, \<open>-999999999999999999 - (999999999999999999 - 1)\<close>).
\<close>

definition MAX_PREC :: nat where
  "MAX_PREC = 999999999999999999"

definition MAX_EMAX :: int where
  "MAX_EMAX = 999999999999999999"

definition MIN_ETINY :: int where
  "MIN_ETINY = - 1999999999999999997"

text \<open>The number of digits of a coefficient: leading zeros do not count, zero has one.\<close>

definition coeff_digits :: "string \<Rightarrow> nat" where
  "coeff_digits ds =
     (let t = dropWhile (\<lambda>c. c = CHR ''0'') ds in if t = [] then 1 else length t)"

text \<open>
  The constructor converts exactly or not at all: with integer digits \<open>ip\<close>, fraction
  digits \<open>fp\<close> and written exponent \<open>e\<close>, the value is kept when the coefficient
  fits the precision, the adjusted exponent (exponent plus digits minus one) is at most
  \<open>MAX_EMAX\<close> and the exponent is at least \<open>MIN_ETINY\<close>. Anything else would be
  rounded or clamped, which the constructor raises as \<open>InvalidOperation\<close>.
\<close>

definition representable :: "string \<Rightarrow> string \<Rightarrow> int \<Rightarrow> bool" where
  "representable ip fp e =
     (length fp \<le> MAX_PREC \<and>
      coeff_digits (ip @ fp) \<le> MAX_PREC \<and>
      e - int (length fp) + int (coeff_digits (ip @ fp)) - 1 \<le> MAX_EMAX \<and>
      MIN_ETINY \<le> e - int (length fp))"

text \<open>
  A number: digits with an optional fractional part, at least one digit in all, then an
  optional exponent, then the end of the text; and the value must be representable.
\<close>

definition parse_number :: "bool \<Rightarrow> string \<Rightarrow> decimal option" where
  "parse_number neg r =
     (let ip = takeWhile is_digit r;
          r1 = dropWhile is_digit r;
          fp = (case r1 of c # t \<Rightarrow> if c = CHR ''.'' then takeWhile is_digit t else [] | [] \<Rightarrow> []);
          r2 = (case r1 of c # t \<Rightarrow> if c = CHR ''.'' then dropWhile is_digit t else r1 | [] \<Rightarrow> [])
      in if ip = [] \<and> fp = [] then None
         else (case r2 of
                 [] \<Rightarrow>
                   if representable ip fp 0
                   then Some (Finite neg (digits_val (ip @ fp)) (- int (length fp)))
                   else None
               | c # t \<Rightarrow>
                   if c = CHR ''e''
                   then (case parse_exponent t of
                           None \<Rightarrow> None
                         | Some e \<Rightarrow>
                             if representable ip fp e
                             then Some (Finite neg (digits_val (ip @ fp)) (e - int (length fp)))
                             else None)
                   else None))"

text \<open>
  \<open>Decimal(s)\<close> for a string: surrounding whitespace and every underscore are removed,
  then comes an optional sign, then a number, \<open>Inf\<close>, \<open>Infinity\<close>, \<open>NaN\<close> or
  \<open>sNaN\<close> with optional payload digits (no more than the precision holds), letters in
  either case. \<open>None\<close> is the conversion error, which the constructor raises as
  \<open>InvalidOperation\<close>.
\<close>

definition payload_fits :: "string \<Rightarrow> bool" where
  "payload_fits ds = (length (dropWhile (\<lambda>c. c = CHR ''0'') ds) \<le> MAX_PREC)"

definition parse_decimal :: "string \<Rightarrow> decimal option" where
  "parse_decimal s =
     (case split_sign (filter (\<lambda>c. c \<noteq> CHR ''_'') (strip s)) of (neg, rest) \<Rightarrow>
        let r = lower rest in
        if r = ''inf'' \<or> r = ''infinity'' then Some (Infinite neg)
        else if take 3 r = ''nan'' \<and> list_all is_digit (drop 3 r)
          then (if payload_fits (drop 3 r)
                then Some (NaN neg False (digits_val (drop 3 r))) else None)
        else if take 4 r = ''snan'' \<and> list_all is_digit (drop 4 r)
          then (if payload_fits (drop 4 r)
                then Some (NaN neg True (digits_val (drop 4 r))) else None)
        else parse_number neg r)"

definition Decimal :: "string \<Rightarrow> exn + decimal" where
  "Decimal s = (case parse_decimal s of None \<Rightarrow> Inl InvalidOperation | Some d \<Rightarrow> Inr d)"

text \<open>
  \<open>d < 0\<close>: an ordering comparison with a NaN raises \<open>InvalidOperation\<close>; a negative
  zero is not less than zero.
\<close>

fun less_zero :: "decimal \<Rightarrow> exn + bool" where
  "less_zero (Finite neg c e) = Inr (neg \<and> c \<noteq> 0)"
| "less_zero (Infinite neg) = Inr neg"
| "less_zero (NaN neg sig p) = Inl InvalidOperation"

section \<open>The store and the session\<close>

text \<open>
  The models \<open>Product\<close>, \<open>Warehouse\<close> and \<open>Inventory\<close> and the object \<open>db\<close> are
  used by the handler and declared elsewhere. The committed rows are a record; a
  warehouse is its primary key. \<open>next_id\<close> is the id the next inserted product gets.
\<close>

record product =
  p_id :: nat
  p_name :: string
  p_sku :: string
  p_price :: decimal

record inventory =
  i_product_id :: nat
  i_warehouse_id :: json
  i_quantity :: json

text \<open>A \<open>Product\<close> object before \<open>flush\<close> writes it: its id is still \<open>None\<close>.\<close>

record draft =
  d_name :: string
  d_sku :: string
  d_price :: decimal

text \<open>
  The store: its committed rows, and how its engine compares a value that is not a string
  with the column \<open>sku\<close>. \<open>sku_binding\<close> gives the text such a value is compared as
  (a column of text affinity compares the number 7 as \<open>7\<close>), or \<open>None\<close> when the
  value equals no sku.
\<close>

record db =
  products :: "product list"
  inventories :: "inventory list"
  warehouses :: "json list"
  next_id :: nat
  sku_binding :: "json \<Rightarrow> string option"

text \<open>
  Every call the handler makes on the store, with what it passes. The engine's own
  behaviour (a unique or foreign-key constraint, a column type, a lost connection) is a
  parameter \<open>fault\<close>: the exception the call raises, if any.
\<close>

datatype db_call =
    FindBySku json
  | GetWarehouse json
  | Flush "draft list"
  | Commit "product list" "inventory list"
  | Rollback

type_synonym faults = "db_call \<Rightarrow> exn option"

text \<open>
  \<open>db.session\<close>, new for each request: the products added and not yet written, the
  products that \<open>flush\<close> has written in the open transaction, the inventory rows
  added and not yet written, and the calls made so far.
\<close>

record session =
  new_products :: "draft list"
  tx_products :: "product list"
  new_inventories :: "inventory list"
  calls :: "db_call list"

definition new_session :: session where
  "new_session = \<lparr>new_products = [], tx_products = [], new_inventories = [], calls = []\<rparr>"

definition record_call :: "db_call \<Rightarrow> session \<Rightarrow> session" where
  "record_call c s = s\<lparr>calls := calls s @ [c]\<rparr>"

text \<open>
  \<open>Product.query.filter_by(sku=v).first()\<close>: the first product whose sku equals
  \<open>v\<close>. A string is compared character by character, as a binary collation does; any
  other value as the engine binds it.
\<close>

definition find_by_sku :: "db \<Rightarrow> json \<Rightarrow> product option" where
  "find_by_sku d v =
     (case v of
        JStr s \<Rightarrow> find (\<lambda>p. p_sku p = s) (products d)
      | _ \<Rightarrow> (case sku_binding d v of
                None \<Rightarrow> None
              | Some s \<Rightarrow> find (\<lambda>p. p_sku p = s) (products d)))"

text \<open>\<open>Warehouse.query.get(v)\<close>: whether a warehouse has the primary key \<open>v\<close>.\<close>

definition get_warehouse :: "db \<Rightarrow> json \<Rightarrow> bool" where
  "get_warehouse d v = (v \<in> set (warehouses d))"

text \<open>\<open>db.session.rollback()\<close> drops everything of the open transaction.\<close>

definition rollback :: "session \<Rightarrow> session" where
  "rollback s =
     (record_call Rollback s)\<lparr>new_products := [], tx_products := [], new_inventories := []\<rparr>"

text \<open>
  \<open>db.session.add(x)\<close> and, when it succeeds, \<open>db.session.flush()\<close>: the added
  products are written in the open transaction and get their ids.
\<close>

definition add_product :: "draft \<Rightarrow> session \<Rightarrow> session" where
  "add_product p s = s\<lparr>new_products := new_products s @ [p]\<rparr>"

definition add_inventory :: "inventory \<Rightarrow> session \<Rightarrow> session" where
  "add_inventory i s = s\<lparr>new_inventories := new_inventories s @ [i]\<rparr>"

fun assign_ids :: "nat \<Rightarrow> draft list \<Rightarrow> product list" where
  "assign_ids n [] = []"
| "assign_ids n (p # ps) =
     \<lparr>p_id = n, p_name = d_name p, p_sku = d_sku p, p_price = d_price p\<rparr> # assign_ids (Suc n) ps"

definition flush_rows :: "db \<Rightarrow> session \<Rightarrow> session" where
  "flush_rows d s =
     s\<lparr>tx_products :=
         tx_products s @ assign_ids (next_id d + length (tx_products s)) (new_products s),
       new_products := []\<rparr>"

text \<open>\<open>db.session.commit()\<close>, when it succeeds: the rows of the transaction become visible.\<close>

definition commit_rows :: "db \<Rightarrow> session \<Rightarrow> db" where
  "commit_rows d s =
     d\<lparr>products := products d @ tx_products s,
       inventories := inventories d @ new_inventories s,
       next_id := next_id d + length (tx_products s)\<rparr>"

section \<open>The handler\<close>

record response =
  status :: nat
  body :: "(string \<times> json) list"

definition error_response :: "nat \<Rightarrow> string \<Rightarrow> response" where
  "error_response code msg = \<lparr>status = code, body = [(''error'', JStr msg)]\<rparr>"

definition created_response :: "nat \<Rightarrow> response" where
  "created_response pid =
     \<lparr>status = 201,
      body = [(''message'', JStr ''Product created successfully''),
              (''product_id'', JInt (int pid))]\<rparr>"

text \<open>A step of the handler raises, returns a response, or goes on with a value.\<close>

datatype 'a outcome = Raise exn | Return response | Value 'a

definition required_fields :: "string list" where
  "required_fields = [''name'', ''sku'', ''price'', ''warehouse_id'', ''initial_quantity'']"

definition quoted :: "string \<Rightarrow> string" where
  "quoted s = [CHR 0x27] @ s @ [CHR 0x27]"

text \<open>
  \<open>f in data\<close>: key membership for a dict, element membership for a list, substring
  for a string, \<open>TypeError\<close> for anything else.
\<close>

fun contains :: "json \<Rightarrow> string \<Rightarrow> exn + bool" where
  "contains (JObj kvs) f = Inr (f \<in> set (map fst kvs))"
| "contains (JArr xs) f = Inr (JStr f \<in> set xs)"
| "contains (JStr s) f = Inr (is_substring f s)"
| "contains v f =
     Inl (TypeError (''argument of type '' @ quoted (type_name v) @ '' is not iterable''))"

text \<open>\<open>data[k]\<close> with a string key.\<close>

fun subscript :: "json \<Rightarrow> string \<Rightarrow> exn + json" where
  "subscript (JObj kvs) k = (case map_of kvs k of None \<Rightarrow> Inl (KeyError k) | Some v \<Rightarrow> Inr v)"
| "subscript (JArr xs) k = Inl (TypeError ''list indices must be integers or slices, not str'')"
| "subscript (JStr s) k = Inl (TypeError (''string indices must be integers, not '' @ quoted ''str''))"
| "subscript v k =
     Inl (TypeError (quoted (type_name v) @ '' object is not subscriptable''))"

text \<open>\<open>[f for f in required_fields if f not in data]\<close>, lines 13 to 14.\<close>

fun missing_of :: "json \<Rightarrow> string list \<Rightarrow> exn + string list" where
  "missing_of data [] = Inr []"
| "missing_of data (f # fs) =
     (case contains data f of
        Inl e \<Rightarrow> Inl e
      | Inr present \<Rightarrow>
          (case missing_of data fs of
             Inl e \<Rightarrow> Inl e
           | Inr ms \<Rightarrow> Inr (if present then ms else f # ms)))"

definition missing_fields :: "json \<Rightarrow> exn + string list" where
  "missing_fields data = missing_of data required_fields"

text \<open>
  Lines 19 to 24: \<open>Decimal(str(data['price']))\<close> and the comparison with 0 sit in a
  \<open>try\<close> whose handler takes \<open>InvalidOperation\<close> and \<open>TypeError\<close>; any other
  exception goes on to the outer handlers.
\<close>

definition price_handler :: "exn \<Rightarrow> decimal outcome" where
  "price_handler e =
     (case e of
        InvalidOperation \<Rightarrow> Return (error_response 400 ''Invalid price format'')
      | TypeError m \<Rightarrow> Return (error_response 400 ''Invalid price format'')
      | _ \<Rightarrow> Raise e)"

definition price_step :: "json \<Rightarrow> decimal outcome" where
  "price_step data =
     (case subscript data ''price'' of
        Inl e \<Rightarrow> price_handler e
      | Inr v \<Rightarrow>
          (case Decimal (py_str v) of
             Inl e \<Rightarrow> price_handler e
           | Inr price \<Rightarrow>
               (case less_zero price of
                  Inl e \<Rightarrow> price_handler e
                | Inr neg \<Rightarrow>
                    if neg then Return (error_response 400 ''Price cannot be negative'')
                    else Value price)))"

text \<open>\<open>v.strip()\<close> on a value of any type: only a string has the method.\<close>

definition strip_method :: "json \<Rightarrow> exn + string" where
  "strip_method v =
     (case v of
        JStr s \<Rightarrow> Inr (strip s)
      | _ \<Rightarrow> Inl (AttributeError (quoted (type_name v) @ '' object has no attribute ''
                                  @ quoted ''strip'')))"

text \<open>Lines 26 to 29: the lookup by sku, with the value of the request as it is.\<close>

definition sku_step :: "faults \<Rightarrow> db \<Rightarrow> json \<Rightarrow> session \<Rightarrow> unit outcome \<times> session" where
  "sku_step fault d data s =
     (case subscript data ''sku'' of
        Inl e \<Rightarrow> (Raise e, s)
      | Inr v \<Rightarrow>
          (let s1 = record_call (FindBySku v) s in
           case fault (FindBySku v) of
             Some e \<Rightarrow> (Raise e, s1)
           | None \<Rightarrow>
               if find_by_sku d v \<noteq> None
               then (Return (error_response 409 ''SKU already exists''), s1)
               else (Value (), s1)))"

text \<open>Lines 31 to 34: the lookup of the warehouse.\<close>

definition warehouse_step :: "faults \<Rightarrow> db \<Rightarrow> json \<Rightarrow> session \<Rightarrow> unit outcome \<times> session" where
  "warehouse_step fault d data s =
     (case subscript data ''warehouse_id'' of
        Inl e \<Rightarrow> (Raise e, s)
      | Inr v \<Rightarrow>
          (let s1 = record_call (GetWarehouse v) s in
           case fault (GetWarehouse v) of
             Some e \<Rightarrow> (Raise e, s1)
           | None \<Rightarrow>
               if \<not> get_warehouse d v
               then (Return (error_response 404 ''Warehouse not found''), s1)
               else (Value (), s1)))"

text \<open>
  Lines 37 to 41: the \<open>Product\<close> object; the arguments are evaluated in the order
  \<open>name\<close>, \<open>sku\<close>.
\<close>

definition make_product :: "json \<Rightarrow> decimal \<Rightarrow> exn + draft" where
  "make_product data price =
     (case subscript data ''name'' of
        Inl e \<Rightarrow> Inl e
      | Inr nv \<Rightarrow>
          (case strip_method nv of
             Inl e \<Rightarrow> Inl e
           | Inr name \<Rightarrow>
               (case subscript data ''sku'' of
                  Inl e \<Rightarrow> Inl e
                | Inr sv \<Rightarrow>
                    (case strip_method sv of
                       Inl e \<Rightarrow> Inl e
                     | Inr sku \<Rightarrow> Inr \<lparr>d_name = name, d_sku = upper sku, d_price = price\<rparr>))))"

text \<open>Lines 46 to 50: the \<open>Inventory\<close> object for the product just written.\<close>

definition make_inventory :: "json \<Rightarrow> nat \<Rightarrow> exn + inventory" where
  "make_inventory data pid =
     (case subscript data ''warehouse_id'' of
        Inl e \<Rightarrow> Inl e
      | Inr wv \<Rightarrow>
          (case subscript data ''initial_quantity'' of
             Inl e \<Rightarrow> Inl e
           | Inr qv \<Rightarrow> Inr \<lparr>i_product_id = pid, i_warehouse_id = wv, i_quantity = qv\<rparr>))"

text \<open>Lines 37 to 59: both inserts, the commit and the 201 response.\<close>

definition insert_step ::
  "faults \<Rightarrow> db \<Rightarrow> json \<Rightarrow> decimal \<Rightarrow> session \<Rightarrow> (exn + response) \<times> db \<times> session" where
  "insert_step fault d data price s =
     (case make_product data price of
        Inl e \<Rightarrow> (Inl e, d, s)
      | Inr p \<Rightarrow>
          (let s1 = add_product p s;
               s2 = record_call (Flush (new_products s1)) s1 in
           case fault (Flush (new_products s1)) of
             Some e \<Rightarrow> (Inl e, d, s2)
           | None \<Rightarrow>
               (let s3 = flush_rows d s2;
                    pid = p_id (last (tx_products s3)) in
                case make_inventory data pid of
                  Inl e \<Rightarrow> (Inl e, d, s3)
                | Inr i \<Rightarrow>
                    (let s4 = add_inventory i s3;
                         c = Commit (tx_products s4) (new_inventories s4);
                         s5 = record_call c s4 in
                     case fault c of
                       Some e \<Rightarrow> (Inl e, d, s5)
                     | None \<Rightarrow>
                         (Inr (created_response pid), commit_rows d s5,
                          s5\<lparr>tx_products := [], new_inventories := []\<rparr>)))))"

text \<open>Lines 10 to 59: the body of the outer \<open>try\<close>.\<close>

definition try_body :: "faults \<Rightarrow> db \<Rightarrow> json \<Rightarrow> (exn + response) \<times> db \<times> session" where
  "try_body fault d data =
     (case missing_fields data of
        Inl e \<Rightarrow> (Inl e, d, new_session)
      | Inr missing \<Rightarrow>
          if missing \<noteq> []
          then (Inr (error_response 400 (''Missing fields: '' @ join '', '' missing)),
                d, new_session)
          else
            (case price_step data of
               Raise e \<Rightarrow> (Inl e, d, new_session)
             | Return r \<Rightarrow> (Inr r, d, new_session)
             | Value price \<Rightarrow>
                 (case sku_step fault d data new_session of
                    (Raise e, s1) \<Rightarrow> (Inl e, d, s1)
                  | (Return r, s1) \<Rightarrow> (Inr r, d, s1)
                  | (Value _, s1) \<Rightarrow>
                      (case warehouse_step fault d data s1 of
                         (Raise e, s2) \<Rightarrow> (Inl e, d, s2)
                       | (Return r, s2) \<Rightarrow> (Inr r, d, s2)
                       | (Value _, s2) \<Rightarrow> insert_step fault d data price s2))))"

text \<open>Lines 61 to 67: the two handlers, each rolling back before it answers.\<close>

definition handle_exn :: "exn \<Rightarrow> response" where
  "handle_exn e =
     (case e of
        IntegrityError m \<Rightarrow> error_response 400 ''Database integrity error''
      | _ \<Rightarrow> error_response 500 (''Internal error: '' @ exn_str e))"

definition create_product :: "faults \<Rightarrow> db \<Rightarrow> json \<Rightarrow> response \<times> db \<times> session" where
  "create_product fault d data =
     (case try_body fault d data of
        (Inr r, d', s) \<Rightarrow> (r, d', s)
      | (Inl e, d', s) \<Rightarrow> (handle_exn e, d', rollback s))"

text \<open>A store that raises nothing.\<close>

definition no_fault :: faults where
  "no_fault c = None"

section \<open>Example stores and requests\<close>

text \<open>
  A store with warehouse 1 and one product whose sku is \<open>WIDGET-1\<close>, and requests with
  the five fields of the handler. Its engine compares an integer with the column
  \<open>sku\<close> as the decimal text of the integer, and no other value that is not a string
  equals a sku.
\<close>

definition integer_as_text :: "json \<Rightarrow> string option" where
  "integer_as_text v = (case v of JInt i \<Rightarrow> Some (int_str i) | _ \<Rightarrow> None)"

definition example_db :: db where
  "example_db =
     \<lparr>products = [\<lparr>p_id = 1, p_name = ''Widget'', p_sku = ''WIDGET-1'',
                    p_price = Finite False 5 0\<rparr>],
      inventories = [\<lparr>i_product_id = 1, i_warehouse_id = JInt 1, i_quantity = JInt 3\<rparr>],
      warehouses = [JInt 1],
      next_id = 2,
      sku_binding = integer_as_text\<rparr>"

text \<open>The same store with a second product, whose sku is the text \<open>7\<close>.\<close>

definition numbered_db :: db where
  "numbered_db =
     example_db\<lparr>products := products example_db @
        [\<lparr>p_id = 2, p_name = ''Seven'', p_sku = ''7'', p_price = Finite False 5 0\<rparr>],
       next_id := 3\<rparr>"

definition request_of :: "json \<Rightarrow> json \<Rightarrow> json \<Rightarrow> json \<Rightarrow> json \<Rightarrow> json" where
  "request_of nv sv pv wv qv =
     JObj [(''name'', nv), (''sku'', sv), (''price'', pv), (''warehouse_id'', wv),
           (''initial_quantity'', qv)]"

definition example_request :: json where
  "example_request = request_of (JStr ''Widget'') (JStr ''W-100'') (JStr ''19.99'') (JInt 1) (JInt 50)"

text \<open>A request with the key names \<open>warehouseId\<close> and \<open>initialQuantity\<close>.\<close>

definition camel_request :: json where
  "camel_request =
     JObj [(''name'', JStr ''Widget''), (''sku'', JStr ''W-100''), (''price'', JStr ''19.99''),
           (''warehouseId'', JInt 1), (''initialQuantity'', JInt 50)]"

text \<open>A store whose commit raises \<open>IntegrityError\<close>, for instance on a foreign key.\<close>

definition commit_fails :: faults where
  "commit_fails c =
     (case c of Commit ps is \<Rightarrow> Some (IntegrityError ''FOREIGN KEY constraint failed'')
      | _ \<Rightarrow> None)"

text \<open>
  Modelled from the spec: the column \<open>quantity\<close> of the missing model \<open>Inventory\<close>
  (``quantity'', an ``integer'', of a row that ``represents the stock level''), on a
  store that enforces it: committing a row without a quantity raises \<open>IntegrityError\<close>,
  and a quantity that is a list or a dict cannot be bound to the column, which is an
  error of another class.
\<close>

definition typed_quantity :: faults where
  "typed_quantity c =
     (case c of
        Commit ps is \<Rightarrow>
          if list_ex (\<lambda>i. i_quantity i = JNull) is
          then Some (IntegrityError ''NOT NULL constraint failed: inventory.quantity'')
          else if list_ex (\<lambda>i. case i_quantity i of JArr xs \<Rightarrow> True | JObj m \<Rightarrow> True
                                 | _ \<Rightarrow> False) is
          then Some (OtherError ''Error binding parameter: type is not supported'')
          else None
      | _ \<Rightarrow> None)"

text \<open>
  Modelled from the spec: the unique constraint on the column \<open>sku\<close> of the missing
  model \<open>Product\<close> (``sku is globally unique among Products'', enforced by ``the
  storage layer itself''). Writing a product whose sku a committed product already has
  raises \<open>IntegrityError\<close>.
\<close>

definition unique_sku :: "db \<Rightarrow> faults" where
  "unique_sku d c =
     (case c of
        Flush ps \<Rightarrow>
          if list_ex (\<lambda>p. d_sku p \<in> set (map p_sku (products d))) ps
          then Some (IntegrityError ''UNIQUE constraint failed: product.sku'')
          else None
      | _ \<Rightarrow> None)"


section \<open>Properties of the steps\<close>

text \<open>The definitions that a run of the handler on a concrete request unfolds.\<close>

lemmas eval_defs =
  create_product_def try_body_def handle_exn_def missing_fields_def required_fields_def
  request_of_def example_request_def camel_request_def example_db_def numbered_db_def
  integer_as_text_def no_fault_def commit_fails_def unique_sku_def typed_quantity_def
  price_step_def price_handler_def Decimal_def py_str_def parse_decimal_def strip_def
  is_space_def split_sign_def lower_def lower_char_def parse_number_def parse_exponent_def
  representable_def coeff_digits_def payload_fits_def MAX_PREC_def MAX_EMAX_def MIN_ETINY_def
  is_digit_def digits_val_def digit_val_def sku_step_def warehouse_step_def find_by_sku_def
  get_warehouse_def record_call_def new_session_def insert_step_def make_product_def
  make_inventory_def strip_method_def upper_def upper_char_def lower_letters_def
  upper_letters_def add_product_def add_inventory_def flush_rows_def commit_rows_def
  rollback_def created_response_def error_response_def quoted_def Let_def

lemma missing_of_obj:
  "missing_of (JObj kvs) fs = Inr (filter (\<lambda>f. f \<notin> set (map fst kvs)) fs)"
  by (induction fs) simp_all

lemma missing_fields_obj:
  "missing_fields (JObj kvs) = Inr (filter (\<lambda>f. f \<notin> set (map fst kvs)) required_fields)"
  by (simp add: missing_fields_def missing_of_obj)

lemma map_of_key: "map_of kvs k = Some v \<Longrightarrow> k \<in> set (map fst kvs)"
  by (metis domI dom_map_of_conv_image_fst set_map)

lemma price_step_return:
  "price_step data = Return r \<Longrightarrow>
     r = error_response 400 ''Invalid price format'' \<or>
     r = error_response 400 ''Price cannot be negative''"
  by (auto simp: price_step_def price_handler_def split: sum.splits exn.splits if_splits)


lemma sku_step_return:
  "sku_step fault d data s = (Return r, s') \<Longrightarrow> r = error_response 409 ''SKU already exists''"
  by (auto simp: sku_step_def Let_def split: sum.splits option.splits if_splits)


lemma warehouse_step_return:
  "warehouse_step fault d data s = (Return r, s') \<Longrightarrow>
     r = error_response 404 ''Warehouse not found''"
  by (auto simp: warehouse_step_def Let_def split: sum.splits option.splits if_splits)


lemma insert_step_return:
  "insert_step fault d data price s = (Inr r, d', s') \<Longrightarrow> \<exists>pid. r = created_response pid"
  by (auto simp: insert_step_def Let_def split: sum.splits option.splits)





lemma handle_exn_cases:
  "handle_exn e = error_response 400 ''Database integrity error'' \<or>
   handle_exn e = error_response 500 (''Internal error: '' @ exn_str e)"
  by (cases e) (simp_all add: handle_exn_def)

section \<open>Failure paths persist nothing\<close>



lemma all_present:
  assumes "map_of kvs ''name'' = Some nv" "map_of kvs ''sku'' = Some sv"
    "map_of kvs ''price'' = Some pv" "map_of kvs ''warehouse_id'' = Some wv"
    "map_of kvs ''initial_quantity'' = Some qv"
  shows "missing_fields (JObj kvs) = Inr []"
  using assms by (simp add: missing_fields_obj required_fields_def map_of_key del: set_map)

lemma price_step_value:
  assumes "map_of kvs ''price'' = Some pv" "parse_decimal (py_str pv) = Some price"
    "less_zero price = Inr False"
  shows "price_step (JObj kvs) = Value price"
  using assms by (simp add: price_step_def Decimal_def)

text \<open>The run of a request that passes every check on a store that raises nothing.\<close>

lemma create_product_success:
  assumes "map_of kvs ''name'' = Some (JStr name)" "map_of kvs ''sku'' = Some (JStr sku)"
    "map_of kvs ''price'' = Some pv" "map_of kvs ''warehouse_id'' = Some wv"
    "map_of kvs ''initial_quantity'' = Some qv"
    "parse_decimal (py_str pv) = Some price" "less_zero price = Inr False"
    "find_by_sku d (JStr sku) = None" "get_warehouse d wv"
    "\<forall>c. fault c = None"
  shows "create_product fault d (JObj kvs) =
    (created_response (next_id d),
     d\<lparr>products := products d @
          [\<lparr>p_id = next_id d, p_name = strip name, p_sku = upper (strip sku), p_price = price\<rparr>],
       inventories := inventories d @
          [\<lparr>i_product_id = next_id d, i_warehouse_id = wv, i_quantity = qv\<rparr>],
       next_id := Suc (next_id d)\<rparr>,
     \<lparr>new_products = [], tx_products = [], new_inventories = [],
      calls = [FindBySku (JStr sku), GetWarehouse wv,
               Flush [\<lparr>d_name = strip name, d_sku = upper (strip sku), d_price = price\<rparr>],
               Commit [\<lparr>p_id = next_id d, p_name = strip name, p_sku = upper (strip sku),
                        p_price = price\<rparr>]
                      [\<lparr>i_product_id = next_id d, i_warehouse_id = wv, i_quantity = qv\<rparr>]]\<rparr>)"
proof -
  have m: "missing_fields (JObj kvs) = Inr []" using assms(1-5) by (rule all_present)
  have p: "price_step (JObj kvs) = Value price" using assms(3,6,7) by (rule price_step_value)
  have s: "sku_step fault d (JObj kvs) new_session =
      (Value (), new_session\<lparr>calls := [FindBySku (JStr sku)]\<rparr>)"
    using assms(2,8,10) by (simp add: sku_step_def record_call_def new_session_def)
  have w: "warehouse_step fault d (JObj kvs) (new_session\<lparr>calls := [FindBySku (JStr sku)]\<rparr>) =
      (Value (), new_session\<lparr>calls := [FindBySku (JStr sku), GetWarehouse wv]\<rparr>)"
    using assms(4,9,10) by (simp add: warehouse_step_def record_call_def new_session_def)
  have mp: "make_product (JObj kvs) price =
      Inr \<lparr>d_name = strip name, d_sku = upper (strip sku), d_price = price\<rparr>"
    using assms(1,2) by (simp add: make_product_def strip_method_def)
  have mi: "make_inventory (JObj kvs) (next_id d) =
      Inr \<lparr>i_product_id = next_id d, i_warehouse_id = wv, i_quantity = qv\<rparr>"
    using assms(4,5) by (simp add: make_inventory_def)
  have i: "insert_step fault d (JObj kvs) price
        (new_session\<lparr>calls := [FindBySku (JStr sku), GetWarehouse wv]\<rparr>) =
    (Inr (created_response (next_id d)),
     d\<lparr>products := products d @
          [\<lparr>p_id = next_id d, p_name = strip name, p_sku = upper (strip sku), p_price = price\<rparr>],
       inventories := inventories d @
          [\<lparr>i_product_id = next_id d, i_warehouse_id = wv, i_quantity = qv\<rparr>],
       next_id := Suc (next_id d)\<rparr>,
     \<lparr>new_products = [], tx_products = [], new_inventories = [],
      calls = [FindBySku (JStr sku), GetWarehouse wv,
               Flush [\<lparr>d_name = strip name, d_sku = upper (strip sku), d_price = price\<rparr>],
               Commit [\<lparr>p_id = next_id d, p_name = strip name, p_sku = upper (strip sku),
                        p_price = price\<rparr>]
                      [\<lparr>i_product_id = next_id d, i_warehouse_id = wv, i_quantity = qv\<rparr>]]\<rparr>)"
    using assms(10) mp mi
    by (simp add: insert_step_def Let_def add_product_def add_inventory_def record_call_def
        flush_rows_def commit_rows_def new_session_def)
  show ?thesis
    by (simp add: create_product_def try_body_def m p s w i)
qed

lemma strip_blank: "list_all is_space s \<Longrightarrow> strip s = []"
proof -
  assume "list_all is_space s"
  then have blank: "dropWhile is_space s = []"
    by (simp add: list_all_iff dropWhile_eq_Nil_conv)
  show ?thesis unfolding strip_def blank by simp
qed

lemma find_by_sku_None:
  "find_by_sku d (JStr s) = None \<longleftrightarrow> (\<forall>p\<in>set (products d). p_sku p \<noteq> s)"
  by (auto simp: find_by_sku_def find_None_iff)

text \<open>Facts about the example request, shared by the concrete runs below.\<close>

lemma example_price: "parse_decimal (py_str (JStr ''19.99'')) = Some (Finite False 1999 (- 2))"
  by (simp add: eval_defs)

lemma example_lookups:
  "find_by_sku example_db (JStr ''W-100'') = None" "get_warehouse example_db (JInt 1)"
  "next_id example_db = 2" "\<forall>c. no_fault c = None"
  by (simp_all add: eval_defs)

section \<open>The uniqueness check and case or whitespace variants\<close>

text \<open>
  C1. The claim is that a request whose sku differs from a stored sku only by letter case
  or surrounding whitespace is answered 409 ``SKU already exists''. The lookup of line 27
  passes \<open>data['sku']\<close> as it is, while line 39 writes \<open>data['sku'].strip().upper()\<close>.
  With the product \<open>WIDGET-1\<close> stored, the request with sku \<open>widget-1\<close> finds
  nothing and is not answered 409: on a store without a unique constraint it is answered
  201 and a second product with sku \<open>WIDGET-1\<close> is committed; on a store with the
  unique constraint the flush raises and the answer is 400 ``Database integrity error''.
\<close>

theorem sku_variant_not_rejected:
  "upper (strip ''widget-1'') = ''WIDGET-1'' \<and>
   find_by_sku example_db (JStr ''WIDGET-1'') \<noteq> None \<and>
   find_by_sku example_db (JStr ''widget-1'') = None \<and>
   fst (create_product no_fault example_db
          (request_of (JStr ''Widget'') (JStr ''widget-1'') (JStr ''19.99'') (JInt 1) (JInt 50)))
     = created_response 2 \<and>
   map p_sku (products (fst (snd (create_product no_fault example_db
          (request_of (JStr ''Widget'') (JStr ''widget-1'') (JStr ''19.99'') (JInt 1) (JInt 50))))))
     = [''WIDGET-1'', ''WIDGET-1''] \<and>
   fst (create_product (unique_sku example_db) example_db
          (request_of (JStr ''Widget'') (JStr ''widget-1'') (JStr ''19.99'') (JInt 1) (JInt 50)))
     = error_response 400 ''Database integrity error''"
  by (simp add: eval_defs)

section \<open>The successful request\<close>

text \<open>
  C3, as stated, fails in three ways: the 201 body has the key \<open>product_id\<close>, not
  \<open>productId\<close>; a name that is not a string passes every check and is answered 500;
  and a store that raises at the commit turns the request into an error with nothing
  persisted.
\<close>

theorem created_response_counterexample:
  "fst (create_product no_fault example_db example_request) \<noteq>
     \<lparr>status = 201,
      body = [(''message'', JStr ''Product created successfully''), (''productId'', JInt 2)]\<rparr> \<and>
   fst (create_product no_fault example_db example_request) =
     \<lparr>status = 201,
      body = [(''message'', JStr ''Product created successfully''), (''product_id'', JInt 2)]\<rparr> \<and>
   status (fst (create_product no_fault example_db
      (request_of (JInt 5) (JStr ''W-100'') (JStr ''19.99'') (JInt 1) (JInt 50)))) = 500 \<and>
   fst (create_product commit_fails example_db example_request) =
     error_response 400 ''Database integrity error'' \<and>
   fst (snd (create_product commit_fails example_db example_request)) = example_db"
  by (simp add: eval_defs)

text \<open>
  C3, amended. For every dict with the five keys \<open>name\<close>, \<open>sku\<close>, \<open>price\<close>,
  \<open>warehouse_id\<close> and \<open>initial_quantity\<close>, whose name and sku are strings, whose
  price converts to a decimal that is not below zero, whose sku no product has (neither
  the sku as sent nor the sku stripped and uppercased is found) and whose warehouse
  exists, on a store that raises nothing: the handler commits exactly one product (name
  stripped, sku stripped and uppercased, the parsed decimal as price, the generated id)
  and exactly one inventory row (that id, the warehouse id and the quantity as sent), and
  answers 201 with the message and the key \<open>product_id\<close> holding the generated id.
  A request whose sku is found in one of the two forms only is not covered.
\<close>

theorem valid_request_creates:
  assumes "map_of kvs ''name'' = Some (JStr name)" "map_of kvs ''sku'' = Some (JStr sku)"
    "map_of kvs ''price'' = Some pv" "map_of kvs ''warehouse_id'' = Some wv"
    "map_of kvs ''initial_quantity'' = Some qv"
    "parse_decimal (py_str pv) = Some price" "less_zero price = Inr False"
    "find_by_sku d (JStr sku) = None" "get_warehouse d wv"
    "\<forall>c. fault c = None"
    "find_by_sku d (JStr (upper (strip sku))) = None"
  shows "create_product fault d (JObj kvs) =
    (\<lparr>status = 201,
      body = [(''message'', JStr ''Product created successfully''),
              (''product_id'', JInt (int (next_id d)))]\<rparr>,
     d\<lparr>products := products d @
          [\<lparr>p_id = next_id d, p_name = strip name, p_sku = upper (strip sku), p_price = price\<rparr>],
       inventories := inventories d @
          [\<lparr>i_product_id = next_id d, i_warehouse_id = wv, i_quantity = qv\<rparr>],
       next_id := Suc (next_id d)\<rparr>,
     \<lparr>new_products = [], tx_products = [], new_inventories = [],
      calls = [FindBySku (JStr sku), GetWarehouse wv,
               Flush [\<lparr>d_name = strip name, d_sku = upper (strip sku), d_price = price\<rparr>],
               Commit [\<lparr>p_id = next_id d, p_name = strip name, p_sku = upper (strip sku),
                        p_price = price\<rparr>]
                      [\<lparr>i_product_id = next_id d, i_warehouse_id = wv, i_quantity = qv\<rparr>]]\<rparr>)"
  using create_product_success[OF assms(1-10)] by (simp add: created_response_def)

theorem valid_request_creates_witness:
  "fst (create_product no_fault example_db example_request) =
     \<lparr>status = 201,
      body = [(''message'', JStr ''Product created successfully''), (''product_id'', JInt 2)]\<rparr> \<and>
   products (fst (snd (create_product no_fault example_db example_request))) =
     products example_db @
       [\<lparr>p_id = 2, p_name = ''Widget'', p_sku = ''W-100'', p_price = Finite False 1999 (- 2)\<rparr>] \<and>
   inventories (fst (snd (create_product no_fault example_db example_request))) =
     inventories example_db @
       [\<lparr>i_product_id = 2, i_warehouse_id = JInt 1, i_quantity = JInt 50\<rparr>]"
proof -
  have lz: "less_zero (Finite False 1999 (- 2)) = Inr False" by simp
  have st: "strip ''Widget'' = ''Widget''" "upper (strip ''W-100'') = ''W-100''"
    by (simp_all add: eval_defs)
  have fresh: "find_by_sku example_db (JStr (upper (strip ''W-100''))) = None"
    by (simp add: eval_defs)
  from valid_request_creates[of "[(''name'', JStr ''Widget''), (''sku'', JStr ''W-100''),
      (''price'', JStr ''19.99''), (''warehouse_id'', JInt 1), (''initial_quantity'', JInt 50)]"
      "''Widget''" "''W-100''" "JStr ''19.99''" "JInt 1" "JInt 50" "Finite False 1999 (- 2)"
      example_db no_fault, OF _ _ _ _ _ example_price lz example_lookups(1,2,4) fresh]
  show ?thesis by (simp add: example_request_def request_of_def st example_lookups(3))
qed

section \<open>The quantity is not validated\<close>

text \<open>The run of a request that passes every check up to the commit, whatever the commit does.\<close>

lemma create_product_commit:
  assumes "map_of kvs ''name'' = Some (JStr name)" "map_of kvs ''sku'' = Some (JStr sku)"
    "map_of kvs ''price'' = Some pv" "map_of kvs ''warehouse_id'' = Some wv"
    "map_of kvs ''initial_quantity'' = Some qv"
    "parse_decimal (py_str pv) = Some price" "less_zero price = Inr False"
    "find_by_sku d (JStr sku) = None" "get_warehouse d wv"
    "fault (FindBySku (JStr sku)) = None" "fault (GetWarehouse wv) = None"
    "fault (Flush [\<lparr>d_name = strip name, d_sku = upper (strip sku), d_price = price\<rparr>]) = None"
  shows "create_product fault d (JObj kvs) =
    (case fault (Commit [\<lparr>p_id = next_id d, p_name = strip name, p_sku = upper (strip sku),
                           p_price = price\<rparr>]
                        [\<lparr>i_product_id = next_id d, i_warehouse_id = wv, i_quantity = qv\<rparr>]) of
       None \<Rightarrow>
         (created_response (next_id d),
          d\<lparr>products := products d @
               [\<lparr>p_id = next_id d, p_name = strip name, p_sku = upper (strip sku),
                 p_price = price\<rparr>],
            inventories := inventories d @
               [\<lparr>i_product_id = next_id d, i_warehouse_id = wv, i_quantity = qv\<rparr>],
            next_id := Suc (next_id d)\<rparr>,
          \<lparr>new_products = [], tx_products = [], new_inventories = [],
           calls = [FindBySku (JStr sku), GetWarehouse wv,
                    Flush [\<lparr>d_name = strip name, d_sku = upper (strip sku), d_price = price\<rparr>],
                    Commit [\<lparr>p_id = next_id d, p_name = strip name, p_sku = upper (strip sku),
                             p_price = price\<rparr>]
                           [\<lparr>i_product_id = next_id d, i_warehouse_id = wv,
                             i_quantity = qv\<rparr>]]\<rparr>)
     | Some e \<Rightarrow>
         (handle_exn e, d,
          \<lparr>new_products = [], tx_products = [], new_inventories = [],
           calls = [FindBySku (JStr sku), GetWarehouse wv,
                    Flush [\<lparr>d_name = strip name, d_sku = upper (strip sku), d_price = price\<rparr>],
                    Commit [\<lparr>p_id = next_id d, p_name = strip name, p_sku = upper (strip sku),
                             p_price = price\<rparr>]
                           [\<lparr>i_product_id = next_id d, i_warehouse_id = wv,
                             i_quantity = qv\<rparr>],
                    Rollback]\<rparr>))"
proof -
  have m: "missing_fields (JObj kvs) = Inr []" using assms(1-5) by (rule all_present)
  have p: "price_step (JObj kvs) = Value price" using assms(3,6,7) by (rule price_step_value)
  have s: "sku_step fault d (JObj kvs) new_session =
      (Value (), new_session\<lparr>calls := [FindBySku (JStr sku)]\<rparr>)"
    using assms(2,8,10) by (simp add: sku_step_def record_call_def new_session_def)
  have w: "warehouse_step fault d (JObj kvs) (new_session\<lparr>calls := [FindBySku (JStr sku)]\<rparr>) =
      (Value (), new_session\<lparr>calls := [FindBySku (JStr sku), GetWarehouse wv]\<rparr>)"
    using assms(4,9,11) by (simp add: warehouse_step_def record_call_def new_session_def)
  have mp: "make_product (JObj kvs) price =
      Inr \<lparr>d_name = strip name, d_sku = upper (strip sku), d_price = price\<rparr>"
    using assms(1,2) by (simp add: make_product_def strip_method_def)
  have mi: "make_inventory (JObj kvs) (next_id d) =
      Inr \<lparr>i_product_id = next_id d, i_warehouse_id = wv, i_quantity = qv\<rparr>"
    using assms(4,5) by (simp add: make_inventory_def)
  show ?thesis
  proof (cases "fault (Commit [\<lparr>p_id = next_id d, p_name = strip name, p_sku = upper (strip sku),
                           p_price = price\<rparr>]
                        [\<lparr>i_product_id = next_id d, i_warehouse_id = wv, i_quantity = qv\<rparr>])")
    case None
    have i: "insert_step fault d (JObj kvs) price
          (new_session\<lparr>calls := [FindBySku (JStr sku), GetWarehouse wv]\<rparr>) =
      (Inr (created_response (next_id d)),
       d\<lparr>products := products d @
            [\<lparr>p_id = next_id d, p_name = strip name, p_sku = upper (strip sku),
              p_price = price\<rparr>],
         inventories := inventories d @
            [\<lparr>i_product_id = next_id d, i_warehouse_id = wv, i_quantity = qv\<rparr>],
         next_id := Suc (next_id d)\<rparr>,
       \<lparr>new_products = [], tx_products = [], new_inventories = [],
        calls = [FindBySku (JStr sku), GetWarehouse wv,
                 Flush [\<lparr>d_name = strip name, d_sku = upper (strip sku), d_price = price\<rparr>],
                 Commit [\<lparr>p_id = next_id d, p_name = strip name, p_sku = upper (strip sku),
                          p_price = price\<rparr>]
                        [\<lparr>i_product_id = next_id d, i_warehouse_id = wv,
                          i_quantity = qv\<rparr>]]\<rparr>)"
      using assms(12) None mp mi
      by (simp add: insert_step_def Let_def add_product_def add_inventory_def record_call_def
          flush_rows_def commit_rows_def new_session_def)
    show ?thesis
      by (simp add: create_product_def try_body_def m p s w i None)
  next
    case (Some e)
    have i: "insert_step fault d (JObj kvs) price
          (new_session\<lparr>calls := [FindBySku (JStr sku), GetWarehouse wv]\<rparr>) =
      (Inl e, d,
       \<lparr>new_products = [],
        tx_products = [\<lparr>p_id = next_id d, p_name = strip name, p_sku = upper (strip sku),
                        p_price = price\<rparr>],
        new_inventories = [\<lparr>i_product_id = next_id d, i_warehouse_id = wv, i_quantity = qv\<rparr>],
        calls = [FindBySku (JStr sku), GetWarehouse wv,
                 Flush [\<lparr>d_name = strip name, d_sku = upper (strip sku), d_price = price\<rparr>],
                 Commit [\<lparr>p_id = next_id d, p_name = strip name, p_sku = upper (strip sku),
                          p_price = price\<rparr>]
                        [\<lparr>i_product_id = next_id d, i_warehouse_id = wv,
                          i_quantity = qv\<rparr>]]\<rparr>)"
      using assms(12) Some mp mi
      by (simp add: insert_step_def Let_def add_product_def add_inventory_def record_call_def
          flush_rows_def new_session_def)
    show ?thesis
      by (simp add: create_product_def try_body_def m p s w i Some rollback_def record_call_def)
  qed
qed

text \<open>
  C7, as stated, fails on a store that enforces the column \<open>quantity\<close>: with every
  other field valid, a request whose \<open>initial_quantity\<close> is \<open>None\<close> is answered 400
  ``Database integrity error'' and one whose \<open>initial_quantity\<close> is a list is answered
  500, each with nothing persisted, while the same request with the quantity 50 is
  answered 201. The request is rejected because of the value, which is not persisted.
\<close>

theorem quantity_rejected_counterexample:
  "create_product typed_quantity example_db
      (request_of (JStr ''Widget'') (JStr ''W-100'') (JStr ''19.99'') (JInt 1) JNull) =
     (error_response 400 ''Database integrity error'', example_db,
      \<lparr>new_products = [], tx_products = [], new_inventories = [],
       calls = [FindBySku (JStr ''W-100''), GetWarehouse (JInt 1),
                Flush [\<lparr>d_name = ''Widget'', d_sku = ''W-100'', d_price = Finite False 1999 (- 2)\<rparr>],
                Commit [\<lparr>p_id = 2, p_name = ''Widget'', p_sku = ''W-100'',
                         p_price = Finite False 1999 (- 2)\<rparr>]
                       [\<lparr>i_product_id = 2, i_warehouse_id = JInt 1, i_quantity = JNull\<rparr>],
                Rollback]\<rparr>) \<and>
   fst (create_product typed_quantity example_db
      (request_of (JStr ''Widget'') (JStr ''W-100'') (JStr ''19.99'') (JInt 1) (JArr [JInt 50]))) =
     error_response 500 ''Internal error: Error binding parameter: type is not supported'' \<and>
   fst (snd (create_product typed_quantity example_db
      (request_of (JStr ''Widget'') (JStr ''W-100'') (JStr ''19.99'') (JInt 1) (JArr [JInt 50])))) =
     example_db \<and>
   status (fst (create_product typed_quantity example_db example_request)) = 201"
  by (simp add: eval_defs)

text \<open>
  C7, amended. No step of the handler validates \<open>initial_quantity\<close>: for every dict
  with the five keys, whose name and sku are strings, whose price converts to a decimal
  that is not below zero, whose sku no product has (neither as sent nor stripped and
  uppercased) and whose warehouse exists, on a store that raises nothing at the two
  lookups and at the flush, whatever value \<open>initial_quantity\<close> holds (negative,
  fractional, not a number at all) the handler hands it unchanged to the store, in the
  inventory row of its commit. When the commit raises nothing, the answer is 201 and the
  value is the quantity of the committed row, unchanged. When the commit raises (as a
  store does that cannot hold the value in its column), the answer is that of the
  exception handlers (400 ``Database integrity error'' or 500) after a rollback, with
  nothing persisted; it is never a validation error for the quantity.
\<close>

theorem quantity_not_validated:
  assumes "map_of kvs ''name'' = Some (JStr name)" "map_of kvs ''sku'' = Some (JStr sku)"
    "map_of kvs ''price'' = Some pv" "map_of kvs ''warehouse_id'' = Some wv"
    "map_of kvs ''initial_quantity'' = Some qv"
    "parse_decimal (py_str pv) = Some price" "less_zero price = Inr False"
    "find_by_sku d (JStr sku) = None" "get_warehouse d wv"
    "fault (FindBySku (JStr sku)) = None" "fault (GetWarehouse wv) = None"
    "fault (Flush [\<lparr>d_name = strip name, d_sku = upper (strip sku), d_price = price\<rparr>]) = None"
    "find_by_sku d (JStr (upper (strip sku))) = None"
  shows
   "(fault (Commit [\<lparr>p_id = next_id d, p_name = strip name, p_sku = upper (strip sku),
                      p_price = price\<rparr>]
                   [\<lparr>i_product_id = next_id d, i_warehouse_id = wv, i_quantity = qv\<rparr>]) = None \<longrightarrow>
       status (fst (create_product fault d (JObj kvs))) = 201 \<and>
       inventories (fst (snd (create_product fault d (JObj kvs)))) =
         inventories d @ [\<lparr>i_product_id = next_id d, i_warehouse_id = wv, i_quantity = qv\<rparr>]) \<and>
    (\<forall>e. fault (Commit [\<lparr>p_id = next_id d, p_name = strip name, p_sku = upper (strip sku),
                          p_price = price\<rparr>]
                       [\<lparr>i_product_id = next_id d, i_warehouse_id = wv, i_quantity = qv\<rparr>]) = Some e \<longrightarrow>
       fst (create_product fault d (JObj kvs)) = handle_exn e \<and>
       (status (handle_exn e) = 500 \<or>
        handle_exn e = error_response 400 ''Database integrity error'') \<and>
       fst (snd (create_product fault d (JObj kvs))) = d \<and>
       last (calls (snd (snd (create_product fault d (JObj kvs))))) = Rollback) \<and>
    Commit [\<lparr>p_id = next_id d, p_name = strip name, p_sku = upper (strip sku), p_price = price\<rparr>]
           [\<lparr>i_product_id = next_id d, i_warehouse_id = wv, i_quantity = qv\<rparr>]
      \<in> set (calls (snd (snd (create_product fault d (JObj kvs)))))"
proof -
  note run = create_product_commit[OF assms(1-12)]
  show ?thesis
  proof (cases "fault (Commit [\<lparr>p_id = next_id d, p_name = strip name, p_sku = upper (strip sku),
                      p_price = price\<rparr>]
                   [\<lparr>i_product_id = next_id d, i_warehouse_id = wv, i_quantity = qv\<rparr>])")
    case None
    with run show ?thesis by (simp add: created_response_def)
  next
    case (Some e)
    with run handle_exn_cases[of e] show ?thesis by (auto simp: error_response_def)
  qed
qed

theorem quantity_not_validated_witness:
  "status (fst (create_product typed_quantity example_db
      (request_of (JStr ''Widget'') (JStr ''W-100'') (JStr ''19.99'') (JInt 1) (JInt (- 5))))) = 201 \<and>
   inventories (fst (snd (create_product typed_quantity example_db
      (request_of (JStr ''Widget'') (JStr ''W-100'') (JStr ''19.99'') (JInt 1) (JInt (- 5)))))) =
     inventories example_db @
       [\<lparr>i_product_id = 2, i_warehouse_id = JInt 1, i_quantity = JInt (- 5)\<rparr>] \<and>
   inventories (fst (snd (create_product typed_quantity example_db
      (request_of (JStr ''Widget'') (JStr ''W-100'') (JStr ''19.99'') (JInt 1) (JFloat ''2.5''))))) =
     inventories example_db @
       [\<lparr>i_product_id = 2, i_warehouse_id = JInt 1, i_quantity = JFloat ''2.5''\<rparr>] \<and>
   fst (create_product typed_quantity example_db
      (request_of (JStr ''Widget'') (JStr ''W-100'') (JStr ''19.99'') (JInt 1) JNull)) =
     error_response 400 ''Database integrity error'' \<and>
   fst (snd (create_product typed_quantity example_db
      (request_of (JStr ''Widget'') (JStr ''W-100'') (JStr ''19.99'') (JInt 1) JNull))) = example_db"
proof -
  have lz: "less_zero (Finite False 1999 (- 2)) = Inr False" by simp
  have st: "strip ''Widget'' = ''Widget''" "upper (strip ''W-100'') = ''W-100''"
    by (simp_all add: eval_defs)
  have fresh: "find_by_sku example_db (JStr (upper (strip ''W-100''))) = None"
    by (simp add: eval_defs)
  have quiet: "typed_quantity (FindBySku v) = None" "typed_quantity (GetWarehouse v) = None"
    "typed_quantity (Flush ps) = None" for v ps
    by (simp_all add: typed_quantity_def)
  note run = quantity_not_validated[of _ "''Widget''" "''W-100''" "JStr ''19.99''" "JInt 1" _
      "Finite False 1999 (- 2)" example_db typed_quantity,
      OF _ _ _ _ _ example_price lz example_lookups(1,2) quiet fresh]
  have kept: "typed_quantity (Commit ps [\<lparr>i_product_id = 2, i_warehouse_id = JInt 1,
      i_quantity = qv\<rparr>]) = None" if "qv = JInt (- 5) \<or> qv = JFloat ''2.5''" for ps qv
    using that by (auto simp: typed_quantity_def)
  have refused: "typed_quantity (Commit ps [\<lparr>i_product_id = 2, i_warehouse_id = JInt 1,
      i_quantity = JNull\<rparr>]) =
      Some (IntegrityError ''NOT NULL constraint failed: inventory.quantity'')" for ps
    by (simp add: typed_quantity_def)
  have a: "status (fst (create_product typed_quantity example_db
      (JObj [(''name'', JStr ''Widget''), (''sku'', JStr ''W-100''), (''price'', JStr ''19.99''),
             (''warehouse_id'', JInt 1), (''initial_quantity'', qv)]))) = 201 \<and>
    inventories (fst (snd (create_product typed_quantity example_db
      (JObj [(''name'', JStr ''Widget''), (''sku'', JStr ''W-100''), (''price'', JStr ''19.99''),
             (''warehouse_id'', JInt 1), (''initial_quantity'', qv)])))) =
     inventories example_db @
       [\<lparr>i_product_id = 2, i_warehouse_id = JInt 1, i_quantity = qv\<rparr>]"
    if "qv = JInt (- 5) \<or> qv = JFloat ''2.5''" for qv
    using run[of "[(''name'', JStr ''Widget''), (''sku'', JStr ''W-100''),
      (''price'', JStr ''19.99''), (''warehouse_id'', JInt 1), (''initial_quantity'', qv)]" qv]
      kept[OF that] by (simp add: example_lookups(3) st)
  have b: "fst (create_product typed_quantity example_db
      (JObj [(''name'', JStr ''Widget''), (''sku'', JStr ''W-100''), (''price'', JStr ''19.99''),
             (''warehouse_id'', JInt 1), (''initial_quantity'', JNull)])) =
      error_response 400 ''Database integrity error'' \<and>
    fst (snd (create_product typed_quantity example_db
      (JObj [(''name'', JStr ''Widget''), (''sku'', JStr ''W-100''), (''price'', JStr ''19.99''),
             (''warehouse_id'', JInt 1), (''initial_quantity'', JNull)]))) = example_db"
    using run[of "[(''name'', JStr ''Widget''), (''sku'', JStr ''W-100''),
      (''price'', JStr ''19.99''), (''warehouse_id'', JInt 1), (''initial_quantity'', JNull)]" JNull]
      refused by (simp add: example_lookups(3) st handle_exn_def)
  from a[of "JInt (- 5)"] a[of "JFloat ''2.5''"] b show ?thesis by (simp add: request_of_def)
qed

section \<open>Blank names and skus\<close>

text \<open>
  C10. A name or sku that is the empty string or only whitespace passes the presence
  check (the key is there) and no later check: with the other fields valid, a store that
  raises nothing and no product whose sku normalizes to the empty string (when the sku is
  blank; otherwise no product with the sku as sent), the request is answered 201 and the
  committed product has the empty string as name, as sku, or as both.
\<close>

theorem blank_name_or_sku_accepted:
  assumes "map_of kvs ''name'' = Some (JStr name)" "map_of kvs ''sku'' = Some (JStr sku)"
    "map_of kvs ''price'' = Some pv" "map_of kvs ''warehouse_id'' = Some wv"
    "map_of kvs ''initial_quantity'' = Some qv"
    "parse_decimal (py_str pv) = Some price" "less_zero price = Inr False"
    "get_warehouse d wv" "\<forall>c. fault c = None"
    "list_all is_space name \<or> list_all is_space sku"
    "if list_all is_space sku
     then \<forall>p\<in>set (products d). upper (strip (p_sku p)) \<noteq> []
     else find_by_sku d (JStr sku) = None"
  shows "status (fst (create_product fault d (JObj kvs))) = 201 \<and>
    products (fst (snd (create_product fault d (JObj kvs)))) =
      products d @
        [\<lparr>p_id = next_id d,
          p_name = (if list_all is_space name then [] else strip name),
          p_sku = (if list_all is_space sku then [] else upper (strip sku)),
          p_price = price\<rparr>]"
proof -
  have fs: "find_by_sku d (JStr sku) = None"
  proof (cases "list_all is_space sku")
    case True
    with assms(11) have "\<forall>p\<in>set (products d). upper (strip (p_sku p)) \<noteq> []" by simp
    moreover from True have "upper (strip sku) = []" by (simp add: strip_blank upper_def)
    ultimately have "\<forall>p\<in>set (products d). p_sku p \<noteq> sku" by auto
    then show ?thesis by (simp add: find_by_sku_None)
  next
    case False
    with assms(11) show ?thesis by simp
  qed
  from create_product_success[OF assms(1-7) fs assms(8,9)]
  show ?thesis by (simp add: created_response_def strip_blank upper_def)
qed

theorem blank_name_or_sku_accepted_witness:
  "status (fst (create_product no_fault example_db
      (request_of (JStr ''  '') (JStr []) (JStr ''19.99'') (JInt 1) (JInt 50)))) = 201 \<and>
   products (fst (snd (create_product no_fault example_db
      (request_of (JStr ''  '') (JStr []) (JStr ''19.99'') (JInt 1) (JInt 50))))) =
     products example_db @
       [\<lparr>p_id = 2, p_name = [], p_sku = [], p_price = Finite False 1999 (- 2)\<rparr>]"
proof -
  have lz: "less_zero (Finite False 1999 (- 2)) = Inr False" by simp
  have bl: "list_all is_space ''  '' \<or> list_all is_space []" by simp
  have ex: "if list_all is_space []
     then \<forall>p\<in>set (products example_db). upper (strip (p_sku p)) \<noteq> []
     else find_by_sku example_db (JStr []) = None"
    by (simp add: eval_defs)
  from blank_name_or_sku_accepted[of "[(''name'', JStr ''  ''), (''sku'', JStr []),
      (''price'', JStr ''19.99''), (''warehouse_id'', JInt 1), (''initial_quantity'', JInt 50)]"
      "''  ''" "[]" "JStr ''19.99''" "JInt 1" "JInt 50" "Finite False 1999 (- 2)"
      example_db no_fault, OF _ _ _ _ _ example_price lz example_lookups(2,4) bl ex]
  show ?thesis by (simp add: request_of_def example_lookups(3) is_space_def)
qed

lemma some_missing:
  assumes "\<exists>f\<in>set required_fields. f \<notin> set (map fst kvs)"
  shows "create_product fault d (JObj kvs) =
    (error_response 400
       (''Missing fields: '' @ join '', '' (filter (\<lambda>f. f \<notin> set (map fst kvs)) required_fields)),
     d, \<lparr>new_products = [], tx_products = [], new_inventories = [], calls = []\<rparr>)"
proof -
  from assms have "filter (\<lambda>f. f \<notin> set (map fst kvs)) required_fields \<noteq> []"
    by (simp add: filter_empty_conv del: set_map)
  then show ?thesis
    by (simp add: create_product_def try_body_def missing_fields_obj new_session_def del: set_map)
qed

lemma none_missing:
  assumes "\<forall>f\<in>set required_fields. f \<in> set (map fst kvs)"
  shows "missing_fields (JObj kvs) = Inr []"
  using assms by (simp add: missing_fields_obj filter_empty_conv del: set_map)

lemma price_rejected:
  assumes "\<forall>f\<in>set required_fields. f \<in> set (map fst kvs)" "price_step (JObj kvs) = Return r"
  shows "create_product fault d (JObj kvs) =
    (r, d, \<lparr>new_products = [], tx_products = [], new_inventories = [], calls = []\<rparr>)"
  using assms(2) none_missing[OF assms(1)]
  by (simp add: create_product_def try_body_def new_session_def)

lemma sku_rejected:
  assumes "\<forall>f\<in>set required_fields. f \<in> set (map fst kvs)" "price_step (JObj kvs) = Value price"
    "map_of kvs ''sku'' = Some sv" "fault (FindBySku sv) = None" "find_by_sku d sv \<noteq> None"
  shows "create_product fault d (JObj kvs) =
    (error_response 409 ''SKU already exists'', d,
     \<lparr>new_products = [], tx_products = [], new_inventories = [], calls = [FindBySku sv]\<rparr>)"
  using assms(2-5) none_missing[OF assms(1)]
  by (auto simp: create_product_def try_body_def new_session_def sku_step_def record_call_def)

lemma warehouse_rejected:
  assumes "\<forall>f\<in>set required_fields. f \<in> set (map fst kvs)" "price_step (JObj kvs) = Value price"
    "map_of kvs ''sku'' = Some sv" "fault (FindBySku sv) = None" "find_by_sku d sv = None"
    "map_of kvs ''warehouse_id'' = Some wv" "fault (GetWarehouse wv) = None"
    "\<not> get_warehouse d wv"
  shows "create_product fault d (JObj kvs) =
    (error_response 404 ''Warehouse not found'', d,
     \<lparr>new_products = [], tx_products = [], new_inventories = [],
      calls = [FindBySku sv, GetWarehouse wv]\<rparr>)"
  using assms(2-8) none_missing[OF assms(1)]
  by (simp add: create_product_def try_body_def new_session_def sku_step_def warehouse_step_def
      record_call_def)

text \<open>A name or sku without the method \<open>strip\<close>, met after both lookups have passed.\<close>

lemma normalization_raises:
  assumes "\<forall>f\<in>set required_fields. f \<in> set (map fst kvs)" "price_step (JObj kvs) = Value price"
    "map_of kvs ''sku'' = Some sv" "fault (FindBySku sv) = None" "find_by_sku d sv = None"
    "map_of kvs ''warehouse_id'' = Some wv" "fault (GetWarehouse wv) = None"
    "get_warehouse d wv" "make_product (JObj kvs) price = Inl (AttributeError m)"
  shows "create_product fault d (JObj kvs) =
    (error_response 500 (''Internal error: '' @ m), d,
     \<lparr>new_products = [], tx_products = [], new_inventories = [],
      calls = [FindBySku sv, GetWarehouse wv, Rollback]\<rparr>)"
  using assms(2-9) none_missing[OF assms(1)]
  by (simp add: create_product_def try_body_def new_session_def sku_step_def warehouse_step_def
      record_call_def insert_step_def handle_exn_def rollback_def)

lemma not_str_cases: "(\<forall>s. v \<noteq> JStr s) \<Longrightarrow> strip_method v =
    Inl (AttributeError (quoted (type_name v) @ '' object has no attribute '' @ quoted ''strip''))"
  by (cases v) (simp_all add: strip_method_def)

lemma strip_method_str: "strip_method (JStr s) = Inr (strip s)"
  by (simp add: strip_method_def)

section \<open>The required fields\<close>

text \<open>
  C5, as stated, names the keys \<open>warehouseId\<close> and \<open>initialQuantity\<close>. The handler
  asks for \<open>warehouse_id\<close> and \<open>initial_quantity\<close>: a request with the five keys of
  the claim, every value valid, is answered 400 with both reported missing.
\<close>

theorem required_keys_counterexample:
  "fst (create_product no_fault example_db camel_request) =
     error_response 400 ''Missing fields: warehouse_id, initial_quantity'' \<and>
   ''warehouseId'' \<notin> set required_fields \<and> ''initialQuantity'' \<notin> set required_fields"
  by (simp add: eval_defs)

text \<open>
  C5, amended. The required keys are exactly \<open>name\<close>, \<open>sku\<close>, \<open>price\<close>,
  \<open>warehouse_id\<close> and \<open>initial_quantity\<close>, and for every dict that lacks one or more
  of them the answer is 400 with the error \<open>Missing fields: \<close> followed by every
  missing key, in that order, separated by a comma and a space; the store is as before
  and no call on it has been made.
\<close>

theorem missing_fields_listed:
  "required_fields = [''name'', ''sku'', ''price'', ''warehouse_id'', ''initial_quantity''] \<and>
   ((\<exists>f\<in>set required_fields. f \<notin> set (map fst kvs)) \<longrightarrow>
    create_product fault d (JObj kvs) =
      (\<lparr>status = 400,
        body = [(''error'',
          JStr (''Missing fields: '' @
                join '', '' (filter (\<lambda>f. f \<notin> set (map fst kvs)) required_fields)))]\<rparr>,
       d, \<lparr>new_products = [], tx_products = [], new_inventories = [], calls = []\<rparr>))"
  using some_missing[of kvs fault d]
  by (simp add: required_fields_def error_response_def del: set_map)

theorem missing_fields_listed_witness:
  "create_product commit_fails example_db (JObj [(''name'', JStr ''Widget''), (''price'', JStr ''abc'')]) =
     (\<lparr>status = 400,
       body = [(''error'', JStr ''Missing fields: sku, warehouse_id, initial_quantity'')]\<rparr>,
      example_db, \<lparr>new_products = [], tx_products = [], new_inventories = [], calls = []\<rparr>)"
proof -
  have "\<exists>f\<in>set required_fields. f \<notin> set (map fst [(''name'', JStr ''Widget''), (''price'', JStr ''abc'')])"
    by (simp add: required_fields_def)
  with missing_fields_listed[of "[(''name'', JStr ''Widget''), (''price'', JStr ''abc'')]"
      commit_fails example_db]
  show ?thesis by (simp add: required_fields_def)
qed

section \<open>The order of the steps\<close>

text \<open>
  C6. The steps run in the order presence check, price, sku lookup, warehouse lookup,
  inserts, and the first one that fails decides the answer, whatever the later ones would
  do: a missing field is answered before the price is read and before any call on the
  store; a price error is answered before any call on the store; a sku that is found is
  answered 409 after the one call \<open>FindBySku\<close>; a warehouse that is not found is
  answered 404 after \<open>FindBySku\<close> and \<open>GetWarehouse\<close>, with no insert. Each answer
  holds for every value of the fields read later and for every behaviour of the store
  in the calls not yet made. A request that passes all four makes the calls
  \<open>FindBySku\<close>, \<open>GetWarehouse\<close>, \<open>Flush\<close>, \<open>Commit\<close> in this order.
\<close>

theorem steps_short_circuit:
  "((\<exists>f\<in>set required_fields. f \<notin> set (map fst kvs)) \<longrightarrow>
      create_product fault d (JObj kvs) =
        (error_response 400
          (''Missing fields: '' @ join '', '' (filter (\<lambda>f. f \<notin> set (map fst kvs)) required_fields)),
         d, \<lparr>new_products = [], tx_products = [], new_inventories = [], calls = []\<rparr>)) \<and>
   ((\<forall>f\<in>set required_fields. f \<in> set (map fst kvs)) \<and> price_step (JObj kvs) = Return r \<longrightarrow>
      (r = error_response 400 ''Invalid price format'' \<or>
       r = error_response 400 ''Price cannot be negative'') \<and>
      create_product fault d (JObj kvs) =
        (r, d, \<lparr>new_products = [], tx_products = [], new_inventories = [], calls = []\<rparr>)) \<and>
   ((\<forall>f\<in>set required_fields. f \<in> set (map fst kvs)) \<and> price_step (JObj kvs) = Value price \<and>
    map_of kvs ''sku'' = Some sv \<and> fault (FindBySku sv) = None \<and> find_by_sku d sv \<noteq> None \<longrightarrow>
      create_product fault d (JObj kvs) =
        (error_response 409 ''SKU already exists'', d,
         \<lparr>new_products = [], tx_products = [], new_inventories = [], calls = [FindBySku sv]\<rparr>)) \<and>
   ((\<forall>f\<in>set required_fields. f \<in> set (map fst kvs)) \<and> price_step (JObj kvs) = Value price \<and>
    map_of kvs ''sku'' = Some sv \<and> fault (FindBySku sv) = None \<and> find_by_sku d sv = None \<and>
    map_of kvs ''warehouse_id'' = Some wv \<and> fault (GetWarehouse wv) = None \<and>
    \<not> get_warehouse d wv \<longrightarrow>
      create_product fault d (JObj kvs) =
        (error_response 404 ''Warehouse not found'', d,
         \<lparr>new_products = [], tx_products = [], new_inventories = [],
          calls = [FindBySku sv, GetWarehouse wv]\<rparr>)) \<and>
   (map_of kvs ''name'' = Some (JStr name) \<and> map_of kvs ''sku'' = Some (JStr sku) \<and>
    map_of kvs ''price'' = Some pv \<and> map_of kvs ''warehouse_id'' = Some wv \<and>
    map_of kvs ''initial_quantity'' = Some qv \<and>
    parse_decimal (py_str pv) = Some price \<and> less_zero price = Inr False \<and>
    find_by_sku d (JStr sku) = None \<and> get_warehouse d wv \<and> (\<forall>c. fault c = None) \<longrightarrow>
      status (fst (create_product fault d (JObj kvs))) = 201 \<and>
      calls (snd (snd (create_product fault d (JObj kvs)))) =
        [FindBySku (JStr sku), GetWarehouse wv,
         Flush [\<lparr>d_name = strip name, d_sku = upper (strip sku), d_price = price\<rparr>],
         Commit [\<lparr>p_id = next_id d, p_name = strip name, p_sku = upper (strip sku),
                  p_price = price\<rparr>]
                [\<lparr>i_product_id = next_id d, i_warehouse_id = wv, i_quantity = qv\<rparr>]])"
proof (intro conjI impI)
  assume "\<exists>f\<in>set required_fields. f \<notin> set (map fst kvs)"
  then show "create_product fault d (JObj kvs) =
        (error_response 400
          (''Missing fields: '' @ join '', '' (filter (\<lambda>f. f \<notin> set (map fst kvs)) required_fields)),
         d, \<lparr>new_products = [], tx_products = [], new_inventories = [], calls = []\<rparr>)"
    by (rule some_missing)
next
  assume a: "(\<forall>f\<in>set required_fields. f \<in> set (map fst kvs)) \<and> price_step (JObj kvs) = Return r"
  then show "r = error_response 400 ''Invalid price format'' \<or>
       r = error_response 400 ''Price cannot be negative''"
    using price_step_return by blast
  from a show "create_product fault d (JObj kvs) =
        (r, d, \<lparr>new_products = [], tx_products = [], new_inventories = [], calls = []\<rparr>)"
    using price_rejected by blast
next
  assume "(\<forall>f\<in>set required_fields. f \<in> set (map fst kvs)) \<and> price_step (JObj kvs) = Value price \<and>
    map_of kvs ''sku'' = Some sv \<and> fault (FindBySku sv) = None \<and> find_by_sku d sv \<noteq> None"
  then show "create_product fault d (JObj kvs) =
        (error_response 409 ''SKU already exists'', d,
         \<lparr>new_products = [], tx_products = [], new_inventories = [], calls = [FindBySku sv]\<rparr>)"
    using sku_rejected[of kvs price sv fault d] by blast
next
  assume "(\<forall>f\<in>set required_fields. f \<in> set (map fst kvs)) \<and> price_step (JObj kvs) = Value price \<and>
    map_of kvs ''sku'' = Some sv \<and> fault (FindBySku sv) = None \<and> find_by_sku d sv = None \<and>
    map_of kvs ''warehouse_id'' = Some wv \<and> fault (GetWarehouse wv) = None \<and>
    \<not> get_warehouse d wv"
  then show "create_product fault d (JObj kvs) =
        (error_response 404 ''Warehouse not found'', d,
         \<lparr>new_products = [], tx_products = [], new_inventories = [],
          calls = [FindBySku sv, GetWarehouse wv]\<rparr>)"
    using warehouse_rejected[of kvs price sv fault d wv] by blast
next
  assume a: "map_of kvs ''name'' = Some (JStr name) \<and> map_of kvs ''sku'' = Some (JStr sku) \<and>
    map_of kvs ''price'' = Some pv \<and> map_of kvs ''warehouse_id'' = Some wv \<and>
    map_of kvs ''initial_quantity'' = Some qv \<and>
    parse_decimal (py_str pv) = Some price \<and> less_zero price = Inr False \<and>
    find_by_sku d (JStr sku) = None \<and> get_warehouse d wv \<and> (\<forall>c. fault c = None)"
  then have run: "create_product fault d (JObj kvs) =
    (created_response (next_id d),
     d\<lparr>products := products d @
          [\<lparr>p_id = next_id d, p_name = strip name, p_sku = upper (strip sku), p_price = price\<rparr>],
       inventories := inventories d @
          [\<lparr>i_product_id = next_id d, i_warehouse_id = wv, i_quantity = qv\<rparr>],
       next_id := Suc (next_id d)\<rparr>,
     \<lparr>new_products = [], tx_products = [], new_inventories = [],
      calls = [FindBySku (JStr sku), GetWarehouse wv,
               Flush [\<lparr>d_name = strip name, d_sku = upper (strip sku), d_price = price\<rparr>],
               Commit [\<lparr>p_id = next_id d, p_name = strip name, p_sku = upper (strip sku),
                        p_price = price\<rparr>]
                      [\<lparr>i_product_id = next_id d, i_warehouse_id = wv, i_quantity = qv\<rparr>]]\<rparr>)"
    using create_product_success[of kvs name sku pv wv qv price d fault] by blast
  show "status (fst (create_product fault d (JObj kvs))) = 201"
    by (simp add: run created_response_def)
  show "calls (snd (snd (create_product fault d (JObj kvs)))) =
        [FindBySku (JStr sku), GetWarehouse wv,
         Flush [\<lparr>d_name = strip name, d_sku = upper (strip sku), d_price = price\<rparr>],
         Commit [\<lparr>p_id = next_id d, p_name = strip name, p_sku = upper (strip sku),
                  p_price = price\<rparr>]
                [\<lparr>i_product_id = next_id d, i_warehouse_id = wv, i_quantity = qv\<rparr>]]"
    by (simp add: run)
qed

theorem steps_short_circuit_witness:
  "create_product commit_fails example_db
     (request_of (JInt 5) (JStr ''WIDGET-1'') (JStr ''abc'') (JInt 99) (JInt 50)) =
     (error_response 400 ''Invalid price format'', example_db,
      \<lparr>new_products = [], tx_products = [], new_inventories = [], calls = []\<rparr>) \<and>
   create_product commit_fails example_db
     (request_of (JInt 5) (JStr ''WIDGET-1'') (JStr ''19.99'') (JInt 99) (JInt 50)) =
     (error_response 409 ''SKU already exists'', example_db,
      \<lparr>new_products = [], tx_products = [], new_inventories = [],
       calls = [FindBySku (JStr ''WIDGET-1'')]\<rparr>) \<and>
   create_product commit_fails example_db
     (request_of (JInt 5) (JStr ''W-100'') (JStr ''19.99'') (JInt 99) (JInt 50)) =
     (error_response 404 ''Warehouse not found'', example_db,
      \<lparr>new_products = [], tx_products = [], new_inventories = [],
       calls = [FindBySku (JStr ''W-100''), GetWarehouse (JInt 99)]\<rparr>)"
proof -
  have present: "\<forall>f\<in>set required_fields. f \<in> set (map fst
      [(''name'', nv), (''sku'', sv), (''price'', pv), (''warehouse_id'', wv),
       (''initial_quantity'', qv)])" for nv sv pv wv qv :: json
    by (simp add: required_fields_def)
  have bad: "price_step (JObj [(''name'', JInt 5), (''sku'', JStr ''WIDGET-1''),
      (''price'', JStr ''abc''), (''warehouse_id'', JInt 99), (''initial_quantity'', JInt 50)]) =
      Return (error_response 400 ''Invalid price format'')"
    by (simp add: eval_defs)
  have good: "price_step (JObj [(''name'', JInt 5), (''sku'', sv),
      (''price'', JStr ''19.99''), (''warehouse_id'', JInt 99), (''initial_quantity'', JInt 50)]) =
      Value (Finite False 1999 (- 2))" for sv
    by (simp add: eval_defs)
  have found: "find_by_sku example_db (JStr ''WIDGET-1'') \<noteq> None"
    and fresh: "find_by_sku example_db (JStr ''W-100'') = None"
    and absent: "\<not> get_warehouse example_db (JInt 99)"
    and quiet: "commit_fails (FindBySku sv) = None" "commit_fails (GetWarehouse wv) = None" for sv wv
    by (simp_all add: eval_defs)
  have one: "create_product commit_fails example_db
     (JObj [(''name'', JInt 5), (''sku'', JStr ''WIDGET-1''), (''price'', JStr ''abc''),
            (''warehouse_id'', JInt 99), (''initial_quantity'', JInt 50)]) =
     (error_response 400 ''Invalid price format'', example_db,
      \<lparr>new_products = [], tx_products = [], new_inventories = [], calls = []\<rparr>)"
    using steps_short_circuit[where kvs = "[(''name'', JInt 5), (''sku'', JStr ''WIDGET-1''),
        (''price'', JStr ''abc''), (''warehouse_id'', JInt 99), (''initial_quantity'', JInt 50)]"
        and fault = commit_fails and d = example_db
        and r = "error_response 400 ''Invalid price format''"]
      present bad by blast
  have two: "create_product commit_fails example_db
     (JObj [(''name'', JInt 5), (''sku'', JStr ''WIDGET-1''), (''price'', JStr ''19.99''),
            (''warehouse_id'', JInt 99), (''initial_quantity'', JInt 50)]) =
     (error_response 409 ''SKU already exists'', example_db,
      \<lparr>new_products = [], tx_products = [], new_inventories = [],
       calls = [FindBySku (JStr ''WIDGET-1'')]\<rparr>)"
    using steps_short_circuit[where kvs = "[(''name'', JInt 5), (''sku'', JStr ''WIDGET-1''),
        (''price'', JStr ''19.99''), (''warehouse_id'', JInt 99), (''initial_quantity'', JInt 50)]"
        and fault = commit_fails and d = example_db and price = "Finite False 1999 (- 2)"
        and sv = "JStr ''WIDGET-1''"]
      present good found quiet by simp
  have three: "create_product commit_fails example_db
     (JObj [(''name'', JInt 5), (''sku'', JStr ''W-100''), (''price'', JStr ''19.99''),
            (''warehouse_id'', JInt 99), (''initial_quantity'', JInt 50)]) =
     (error_response 404 ''Warehouse not found'', example_db,
      \<lparr>new_products = [], tx_products = [], new_inventories = [],
       calls = [FindBySku (JStr ''W-100''), GetWarehouse (JInt 99)]\<rparr>)"
    using steps_short_circuit[where kvs = "[(''name'', JInt 5), (''sku'', JStr ''W-100''),
        (''price'', JStr ''19.99''), (''warehouse_id'', JInt 99), (''initial_quantity'', JInt 50)]"
        and fault = commit_fails and d = example_db and price = "Finite False 1999 (- 2)"
        and sv = "JStr ''W-100''" and wv = "JInt 99"]
      present good fresh absent quiet by simp
  from one two three show ?thesis by (simp add: request_of_def)
qed

section \<open>Type errors outside the price\<close>

lemma missing_of_arr:
  "missing_of (JArr xs) fs = Inr (filter (\<lambda>f. JStr f \<notin> set xs) fs)"
  by (induction fs) simp_all

lemma missing_of_str:
  "missing_of (JStr s) fs = Inr (filter (\<lambda>f. \<not> is_substring f s) fs)"
  by (induction fs) simp_all

text \<open>
  A body that is a list or a string: the presence check does not raise, and when nothing
  is reported missing \<open>data['price']\<close> raises \<open>TypeError\<close> inside the guarded block.
\<close>

lemma body_list_or_string:
  assumes "(\<exists>xs. data = JArr xs) \<or> (\<exists>s. data = JStr s)"
  shows "\<exists>msg. create_product fault d data =
    (error_response 400 msg, d,
     \<lparr>new_products = [], tx_products = [], new_inventories = [], calls = []\<rparr>)"
proof -
  from assms obtain ms where ms: "missing_fields data = Inr ms"
    by (auto simp: missing_fields_def missing_of_arr missing_of_str)
  show ?thesis
  proof (cases "ms = []")
    case False
    with ms have "create_product fault d data =
      (error_response 400 (''Missing fields: '' @ join '', '' ms), d,
       \<lparr>new_products = [], tx_products = [], new_inventories = [], calls = []\<rparr>)"
      by (simp add: create_product_def try_body_def new_session_def)
    then show ?thesis by blast
  next
    case True
    from assms have "price_step data = Return (error_response 400 ''Invalid price format'')"
      by (auto simp: price_step_def price_handler_def)
    with ms True have "create_product fault d data =
      (error_response 400 ''Invalid price format'', d,
       \<lparr>new_products = [], tx_products = [], new_inventories = [], calls = []\<rparr>)"
      by (simp add: create_product_def try_body_def new_session_def)
    then show ?thesis by blast
  qed
qed

text \<open>
  C8, as stated, fails for two kinds of body that are no JSON object, and for a sku that
  the store finds: a list and a string are answered 400 by the presence check, not 500;
  and on a store that compares the number 7 with the stored sku \<open>7\<close> as equal, a request
  whose sku is the number 7 is answered 409 before the normalization is reached.
\<close>

theorem body_type_counterexample:
  "create_product no_fault example_db (JArr []) =
     (error_response 400 ''Missing fields: name, sku, price, warehouse_id, initial_quantity'',
      example_db, \<lparr>new_products = [], tx_products = [], new_inventories = [], calls = []\<rparr>) \<and>
   create_product no_fault example_db (JStr ''abc'') =
     (error_response 400 ''Missing fields: name, sku, price, warehouse_id, initial_quantity'',
      example_db, \<lparr>new_products = [], tx_products = [], new_inventories = [], calls = []\<rparr>) \<and>
   fst (create_product no_fault numbered_db
      (request_of (JStr ''Widget'') (JInt 7) (JStr ''19.99'') (JInt 1) (JInt 50))) =
     error_response 409 ''SKU already exists''"
  by (simp add: eval_defs int_str_def nat_str.simps digit_char_def)

text \<open>
  C8, amended. A decoded body that is \<open>None\<close>, a bool or a number makes the presence
  check raise \<open>TypeError\<close>; a name or a sku that is present and not a string makes
  \<open>.strip()\<close> raise \<open>AttributeError\<close> once the price and both lookups have passed
  (the sku not found, the warehouse found, no lookup raising). Either exception reaches
  the last handler: the session is rolled back and the answer is 500 with the error
  \<open>Internal error: \<close> followed by the text of the exception, not a 400. A body that is
  a list or a string is answered 400, with no call on the store. Only the price has its
  own handler: a price of the wrong type, here \<open>None\<close>, is answered 400
  ``Invalid price format''.
\<close>

theorem type_errors_are_internal:
  "(((\<exists>xs. data = JArr xs) \<or> (\<exists>s. data = JStr s)) \<longrightarrow>
      status (fst (create_product fault d data)) = 400 \<and>
      snd (create_product fault d data) =
        (d, \<lparr>new_products = [], tx_products = [], new_inventories = [], calls = []\<rparr>)) \<and>
   ((data = JNull \<or> (\<exists>b. data = JBool b) \<or> (\<exists>i. data = JInt i) \<or> (\<exists>t. data = JFloat t)) \<longrightarrow>
      create_product fault d data =
        (\<lparr>status = 500,
          body = [(''error'', JStr (''Internal error: argument of type '' @
                                   quoted (type_name data) @ '' is not iterable''))]\<rparr>,
         d, \<lparr>new_products = [], tx_products = [], new_inventories = [], calls = [Rollback]\<rparr>)) \<and>
   ((\<forall>f\<in>set required_fields. f \<in> set (map fst kvs)) \<and> price_step (JObj kvs) = Value price \<and>
    map_of kvs ''sku'' = Some sv \<and> fault (FindBySku sv) = None \<and> find_by_sku d sv = None \<and>
    map_of kvs ''warehouse_id'' = Some wv \<and> fault (GetWarehouse wv) = None \<and>
    get_warehouse d wv \<and> map_of kvs ''name'' = Some nv \<and> (\<forall>s. nv \<noteq> JStr s) \<longrightarrow>
      create_product fault d (JObj kvs) =
        (\<lparr>status = 500,
          body = [(''error'', JStr (''Internal error: '' @ quoted (type_name nv) @
                                   '' object has no attribute '' @ quoted ''strip''))]\<rparr>,
         d, \<lparr>new_products = [], tx_products = [], new_inventories = [],
             calls = [FindBySku sv, GetWarehouse wv, Rollback]\<rparr>)) \<and>
   ((\<forall>f\<in>set required_fields. f \<in> set (map fst kvs)) \<and> price_step (JObj kvs) = Value price \<and>
    map_of kvs ''sku'' = Some sv \<and> fault (FindBySku sv) = None \<and> find_by_sku d sv = None \<and>
    map_of kvs ''warehouse_id'' = Some wv \<and> fault (GetWarehouse wv) = None \<and>
    get_warehouse d wv \<and> map_of kvs ''name'' = Some (JStr name) \<and> (\<forall>s. sv \<noteq> JStr s) \<longrightarrow>
      create_product fault d (JObj kvs) =
        (\<lparr>status = 500,
          body = [(''error'', JStr (''Internal error: '' @ quoted (type_name sv) @
                                   '' object has no attribute '' @ quoted ''strip''))]\<rparr>,
         d, \<lparr>new_products = [], tx_products = [], new_inventories = [],
             calls = [FindBySku sv, GetWarehouse wv, Rollback]\<rparr>)) \<and>
   ((\<forall>f\<in>set required_fields. f \<in> set (map fst kvs)) \<and> map_of kvs ''price'' = Some JNull \<longrightarrow>
      create_product fault d (JObj kvs) =
        (\<lparr>status = 400, body = [(''error'', JStr ''Invalid price format'')]\<rparr>,
         d, \<lparr>new_products = [], tx_products = [], new_inventories = [], calls = []\<rparr>))"
proof (intro conjI impI)
  assume "(\<exists>xs. data = JArr xs) \<or> (\<exists>s. data = JStr s)"
  from body_list_or_string[OF this, of fault d] obtain msg where
    run: "create_product fault d data =
      (error_response 400 msg, d,
       \<lparr>new_products = [], tx_products = [], new_inventories = [], calls = []\<rparr>)"
    by blast
  show "status (fst (create_product fault d data)) = 400"
    by (simp add: run error_response_def)
  show "snd (create_product fault d data) =
        (d, \<lparr>new_products = [], tx_products = [], new_inventories = [], calls = []\<rparr>)"
    by (simp add: run)
next
  assume "data = JNull \<or> (\<exists>b. data = JBool b) \<or> (\<exists>i. data = JInt i) \<or> (\<exists>t. data = JFloat t)"
  then show "create_product fault d data =
        (\<lparr>status = 500,
          body = [(''error'', JStr (''Internal error: argument of type '' @
                                   quoted (type_name data) @ '' is not iterable''))]\<rparr>,
         d, \<lparr>new_products = [], tx_products = [], new_inventories = [], calls = [Rollback]\<rparr>)"
    by (auto simp: create_product_def try_body_def missing_fields_def required_fields_def
        handle_exn_def error_response_def rollback_def record_call_def new_session_def)
next
  assume a: "(\<forall>f\<in>set required_fields. f \<in> set (map fst kvs)) \<and> price_step (JObj kvs) = Value price \<and>
    map_of kvs ''sku'' = Some sv \<and> fault (FindBySku sv) = None \<and> find_by_sku d sv = None \<and>
    map_of kvs ''warehouse_id'' = Some wv \<and> fault (GetWarehouse wv) = None \<and>
    get_warehouse d wv \<and> map_of kvs ''name'' = Some nv \<and> (\<forall>s. nv \<noteq> JStr s)"
  then have "make_product (JObj kvs) price =
      Inl (AttributeError (quoted (type_name nv) @ '' object has no attribute '' @ quoted ''strip''))"
    by (simp add: make_product_def not_str_cases)
  with a show "create_product fault d (JObj kvs) =
        (\<lparr>status = 500,
          body = [(''error'', JStr (''Internal error: '' @ quoted (type_name nv) @
                                   '' object has no attribute '' @ quoted ''strip''))]\<rparr>,
         d, \<lparr>new_products = [], tx_products = [], new_inventories = [],
             calls = [FindBySku sv, GetWarehouse wv, Rollback]\<rparr>)"
    using normalization_raises[of kvs price sv fault d wv] by (simp add: error_response_def)
next
  assume a: "(\<forall>f\<in>set required_fields. f \<in> set (map fst kvs)) \<and> price_step (JObj kvs) = Value price \<and>
    map_of kvs ''sku'' = Some sv \<and> fault (FindBySku sv) = None \<and> find_by_sku d sv = None \<and>
    map_of kvs ''warehouse_id'' = Some wv \<and> fault (GetWarehouse wv) = None \<and>
    get_warehouse d wv \<and> map_of kvs ''name'' = Some (JStr name) \<and> (\<forall>s. sv \<noteq> JStr s)"
  then have mp: "make_product (JObj kvs) price =
      Inl (AttributeError (quoted (type_name sv) @ '' object has no attribute '' @ quoted ''strip''))"
    by (simp add: make_product_def not_str_cases strip_method_str)
  from a mp show "create_product fault d (JObj kvs) =
        (\<lparr>status = 500,
          body = [(''error'', JStr (''Internal error: '' @ quoted (type_name sv) @
                                   '' object has no attribute '' @ quoted ''strip''))]\<rparr>,
         d, \<lparr>new_products = [], tx_products = [], new_inventories = [],
             calls = [FindBySku sv, GetWarehouse wv, Rollback]\<rparr>)"
    using normalization_raises[of kvs price sv fault d wv] by (simp add: error_response_def)
next
  assume a: "(\<forall>f\<in>set required_fields. f \<in> set (map fst kvs)) \<and> map_of kvs ''price'' = Some JNull"
  have "parse_decimal ''None'' = None" by (simp add: eval_defs)
  with a have "price_step (JObj kvs) = Return (error_response 400 ''Invalid price format'')"
    by (simp add: price_step_def py_str_def Decimal_def price_handler_def)
  with a show "create_product fault d (JObj kvs) =
        (\<lparr>status = 400, body = [(''error'', JStr ''Invalid price format'')]\<rparr>,
         d, \<lparr>new_products = [], tx_products = [], new_inventories = [], calls = []\<rparr>)"
    using price_rejected[of kvs "error_response 400 ''Invalid price format''" fault d]
    by (simp add: error_response_def)
qed

theorem type_errors_are_internal_witness:
  "status (fst (create_product no_fault example_db (JArr [JStr ''name'']))) = 400 \<and>
   create_product no_fault example_db JNull =
     (\<lparr>status = 500,
       body = [(''error'', JStr ''Internal error: argument of type 'NoneType' is not iterable'')]\<rparr>,
      example_db,
      \<lparr>new_products = [], tx_products = [], new_inventories = [], calls = [Rollback]\<rparr>) \<and>
   create_product no_fault example_db
     (request_of (JInt 5) (JStr ''W-100'') (JStr ''19.99'') (JInt 1) (JInt 50)) =
     (\<lparr>status = 500,
       body = [(''error'', JStr (''Internal error: '' @ quoted ''int'' @
                                '' object has no attribute '' @ quoted ''strip''))]\<rparr>,
      example_db,
      \<lparr>new_products = [], tx_products = [], new_inventories = [],
       calls = [FindBySku (JStr ''W-100''), GetWarehouse (JInt 1), Rollback]\<rparr>) \<and>
   create_product no_fault example_db
     (request_of (JStr ''Widget'') (JInt 7) (JStr ''19.99'') (JInt 1) (JInt 50)) =
     (\<lparr>status = 500,
       body = [(''error'', JStr (''Internal error: '' @ quoted ''int'' @
                                '' object has no attribute '' @ quoted ''strip''))]\<rparr>,
      example_db,
      \<lparr>new_products = [], tx_products = [], new_inventories = [],
       calls = [FindBySku (JInt 7), GetWarehouse (JInt 1), Rollback]\<rparr>) \<and>
   create_product no_fault example_db
     (request_of (JStr ''Widget'') (JStr ''W-100'') JNull (JInt 1) (JInt 50)) =
     (\<lparr>status = 400, body = [(''error'', JStr ''Invalid price format'')]\<rparr>,
      example_db, \<lparr>new_products = [], tx_products = [], new_inventories = [], calls = []\<rparr>)"
proof -
  have present: "\<forall>f\<in>set required_fields. f \<in> set (map fst
      [(''name'', nv), (''sku'', sv), (''price'', pv), (''warehouse_id'', wv),
       (''initial_quantity'', qv)])" for nv sv pv wv qv :: json
    by (simp add: required_fields_def)
  have good: "price_step (JObj [(''name'', nv), (''sku'', sv),
      (''price'', JStr ''19.99''), (''warehouse_id'', JInt 1), (''initial_quantity'', JInt 50)]) =
      Value (Finite False 1999 (- 2))" for nv sv
    by (simp add: eval_defs)
  have quiet: "no_fault c = None" for c by (simp add: no_fault_def)
  have seven: "find_by_sku example_db (JInt 7) = None"
    by (simp add: eval_defs int_str_def nat_str.simps digit_char_def)
  have one: "create_product no_fault example_db JNull =
     (\<lparr>status = 500,
       body = [(''error'', JStr (''Internal error: argument of type '' @
                                quoted (type_name JNull) @ '' is not iterable''))]\<rparr>,
      example_db,
      \<lparr>new_products = [], tx_products = [], new_inventories = [], calls = [Rollback]\<rparr>)"
    using type_errors_are_internal[where data = JNull and fault = no_fault and d = example_db]
    by simp
  have two: "create_product no_fault example_db
     (JObj [(''name'', JInt 5), (''sku'', JStr ''W-100''), (''price'', JStr ''19.99''),
            (''warehouse_id'', JInt 1), (''initial_quantity'', JInt 50)]) =
     (\<lparr>status = 500,
       body = [(''error'', JStr (''Internal error: '' @ quoted (type_name (JInt 5)) @
                                '' object has no attribute '' @ quoted ''strip''))]\<rparr>,
      example_db,
      \<lparr>new_products = [], tx_products = [], new_inventories = [],
       calls = [FindBySku (JStr ''W-100''), GetWarehouse (JInt 1), Rollback]\<rparr>)"
    using type_errors_are_internal[where kvs = "[(''name'', JInt 5), (''sku'', JStr ''W-100''),
        (''price'', JStr ''19.99''), (''warehouse_id'', JInt 1), (''initial_quantity'', JInt 50)]"
        and fault = no_fault and d = example_db and price = "Finite False 1999 (- 2)"
        and sv = "JStr ''W-100''" and wv = "JInt 1" and nv = "JInt 5"]
      present good quiet example_lookups(1,2) by simp
  have three: "create_product no_fault example_db
     (JObj [(''name'', JStr ''Widget''), (''sku'', JInt 7), (''price'', JStr ''19.99''),
            (''warehouse_id'', JInt 1), (''initial_quantity'', JInt 50)]) =
     (\<lparr>status = 500,
       body = [(''error'', JStr (''Internal error: '' @ quoted (type_name (JInt 7)) @
                                '' object has no attribute '' @ quoted ''strip''))]\<rparr>,
      example_db,
      \<lparr>new_products = [], tx_products = [], new_inventories = [],
       calls = [FindBySku (JInt 7), GetWarehouse (JInt 1), Rollback]\<rparr>)"
    using type_errors_are_internal[where kvs = "[(''name'', JStr ''Widget''), (''sku'', JInt 7),
        (''price'', JStr ''19.99''), (''warehouse_id'', JInt 1), (''initial_quantity'', JInt 50)]"
        and fault = no_fault and d = example_db and price = "Finite False 1999 (- 2)"
        and sv = "JInt 7" and wv = "JInt 1" and name = "''Widget''"]
      present good quiet seven example_lookups(2) by simp
  have four: "create_product no_fault example_db
     (JObj [(''name'', JStr ''Widget''), (''sku'', JStr ''W-100''), (''price'', JNull),
            (''warehouse_id'', JInt 1), (''initial_quantity'', JInt 50)]) =
     (\<lparr>status = 400, body = [(''error'', JStr ''Invalid price format'')]\<rparr>,
      example_db, \<lparr>new_products = [], tx_products = [], new_inventories = [], calls = []\<rparr>)"
    using type_errors_are_internal[where kvs = "[(''name'', JStr ''Widget''), (''sku'', JStr ''W-100''),
        (''price'', JNull), (''warehouse_id'', JInt 1), (''initial_quantity'', JInt 50)]"
        and fault = no_fault and d = example_db]
      present by simp
  have zero: "status (fst (create_product no_fault example_db (JArr [JStr ''name'']))) = 400"
    using type_errors_are_internal[where data = "JArr [JStr ''name'']" and fault = no_fault
        and d = example_db]
    by simp
  from zero one two three four show ?thesis by (simp add: request_of_def quoted_def)
qed

section \<open>Prices that are not finite\<close>

text \<open>
  C9. The text \<open>Infinity\<close> converts to the positive infinite decimal, which is not
  less than zero: the price check passes and, with the other checks passing on a store
  that raises nothing, the infinite decimal is committed as the price. The text \<open>NaN\<close>
  converts as well (to a quiet NaN); it is the comparison with zero that raises
  \<open>InvalidOperation\<close>, inside the guarded block, and the answer is 400
  ``Invalid price format''.
\<close>

theorem non_finite_prices:
  "parse_decimal ''Infinity'' = Some (Infinite False) \<and>
   less_zero (Infinite False) = Inr False \<and>
   parse_decimal ''NaN'' = Some (NaN False False 0) \<and>
   less_zero (NaN False False 0) = Inl InvalidOperation \<and>
   (map_of kvs ''name'' = Some (JStr name) \<and> map_of kvs ''sku'' = Some (JStr sku) \<and>
    map_of kvs ''price'' = Some (JStr ''Infinity'') \<and> map_of kvs ''warehouse_id'' = Some wv \<and>
    map_of kvs ''initial_quantity'' = Some qv \<and>
    find_by_sku d (JStr sku) = None \<and> get_warehouse d wv \<and> (\<forall>c. fault c = None) \<longrightarrow>
      status (fst (create_product fault d (JObj kvs))) = 201 \<and>
      products (fst (snd (create_product fault d (JObj kvs)))) =
        products d @
          [\<lparr>p_id = next_id d, p_name = strip name, p_sku = upper (strip sku),
            p_price = Infinite False\<rparr>]) \<and>
   ((\<forall>f\<in>set required_fields. f \<in> set (map fst kvs)) \<and>
    map_of kvs ''price'' = Some (JStr ''NaN'') \<longrightarrow>
      create_product fault d (JObj kvs) =
        (\<lparr>status = 400, body = [(''error'', JStr ''Invalid price format'')]\<rparr>,
         d, \<lparr>new_products = [], tx_products = [], new_inventories = [], calls = []\<rparr>))"
proof (intro conjI impI)
  show inf: "parse_decimal ''Infinity'' = Some (Infinite False)" by (simp add: eval_defs)
  show "less_zero (Infinite False) = Inr False" by simp
  show nan: "parse_decimal ''NaN'' = Some (NaN False False 0)" by (simp add: eval_defs)
  show "less_zero (NaN False False 0) = Inl InvalidOperation" by simp
  {
    assume a: "map_of kvs ''name'' = Some (JStr name) \<and> map_of kvs ''sku'' = Some (JStr sku) \<and>
      map_of kvs ''price'' = Some (JStr ''Infinity'') \<and> map_of kvs ''warehouse_id'' = Some wv \<and>
      map_of kvs ''initial_quantity'' = Some qv \<and>
      find_by_sku d (JStr sku) = None \<and> get_warehouse d wv \<and> (\<forall>c. fault c = None)"
    have p: "parse_decimal (py_str (JStr ''Infinity'')) = Some (Infinite False)"
      using inf by (simp add: py_str_def)
    have l: "less_zero (Infinite False) = Inr False" by simp
    from a have run: "create_product fault d (JObj kvs) =
      (created_response (next_id d),
       d\<lparr>products := products d @
            [\<lparr>p_id = next_id d, p_name = strip name, p_sku = upper (strip sku),
              p_price = Infinite False\<rparr>],
         inventories := inventories d @
            [\<lparr>i_product_id = next_id d, i_warehouse_id = wv, i_quantity = qv\<rparr>],
         next_id := Suc (next_id d)\<rparr>,
       \<lparr>new_products = [], tx_products = [], new_inventories = [],
        calls = [FindBySku (JStr sku), GetWarehouse wv,
                 Flush [\<lparr>d_name = strip name, d_sku = upper (strip sku), d_price = Infinite False\<rparr>],
                 Commit [\<lparr>p_id = next_id d, p_name = strip name, p_sku = upper (strip sku),
                          p_price = Infinite False\<rparr>]
                        [\<lparr>i_product_id = next_id d, i_warehouse_id = wv, i_quantity = qv\<rparr>]]\<rparr>)"
      using create_product_success[of kvs name sku "JStr ''Infinity''" wv qv "Infinite False" d fault]
        p l by blast
    show "status (fst (create_product fault d (JObj kvs))) = 201"
      by (simp add: run created_response_def)
    show "products (fst (snd (create_product fault d (JObj kvs)))) =
        products d @
          [\<lparr>p_id = next_id d, p_name = strip name, p_sku = upper (strip sku),
            p_price = Infinite False\<rparr>]"
      by (simp add: run)
  }
  {
    assume a: "(\<forall>f\<in>set required_fields. f \<in> set (map fst kvs)) \<and>
      map_of kvs ''price'' = Some (JStr ''NaN'')"
    with nan have "price_step (JObj kvs) = Return (error_response 400 ''Invalid price format'')"
      by (simp add: price_step_def py_str_def Decimal_def price_handler_def)
    with a show "create_product fault d (JObj kvs) =
        (\<lparr>status = 400, body = [(''error'', JStr ''Invalid price format'')]\<rparr>,
         d, \<lparr>new_products = [], tx_products = [], new_inventories = [], calls = []\<rparr>)"
      using price_rejected[of kvs "error_response 400 ''Invalid price format''" fault d]
      by (simp add: error_response_def)
  }
qed

theorem non_finite_prices_witness:
  "status (fst (create_product no_fault example_db
      (request_of (JStr ''Widget'') (JStr ''W-100'') (JStr ''Infinity'') (JInt 1) (JInt 50)))) = 201 \<and>
   products (fst (snd (create_product no_fault example_db
      (request_of (JStr ''Widget'') (JStr ''W-100'') (JStr ''Infinity'') (JInt 1) (JInt 50))))) =
     products example_db @
       [\<lparr>p_id = 2, p_name = ''Widget'', p_sku = ''W-100'', p_price = Infinite False\<rparr>] \<and>
   create_product no_fault example_db
      (request_of (JStr ''Widget'') (JStr ''W-100'') (JStr ''NaN'') (JInt 1) (JInt 50)) =
     (\<lparr>status = 400, body = [(''error'', JStr ''Invalid price format'')]\<rparr>,
      example_db, \<lparr>new_products = [], tx_products = [], new_inventories = [], calls = []\<rparr>)"
proof -
  have present: "\<forall>f\<in>set required_fields. f \<in> set (map fst
      [(''name'', nv), (''sku'', sv), (''price'', pv), (''warehouse_id'', wv),
       (''initial_quantity'', qv)])" for nv sv pv wv qv :: json
    by (simp add: required_fields_def)
  have st: "strip ''Widget'' = ''Widget''" "upper (strip ''W-100'') = ''W-100''"
    by (simp_all add: eval_defs)
  have one: "status (fst (create_product no_fault example_db
      (JObj [(''name'', JStr ''Widget''), (''sku'', JStr ''W-100''), (''price'', JStr ''Infinity''),
             (''warehouse_id'', JInt 1), (''initial_quantity'', JInt 50)]))) = 201 \<and>
    products (fst (snd (create_product no_fault example_db
      (JObj [(''name'', JStr ''Widget''), (''sku'', JStr ''W-100''), (''price'', JStr ''Infinity''),
             (''warehouse_id'', JInt 1), (''initial_quantity'', JInt 50)])))) =
     products example_db @
       [\<lparr>p_id = 2, p_name = ''Widget'', p_sku = ''W-100'', p_price = Infinite False\<rparr>]"
    using non_finite_prices[where kvs = "[(''name'', JStr ''Widget''), (''sku'', JStr ''W-100''),
        (''price'', JStr ''Infinity''), (''warehouse_id'', JInt 1), (''initial_quantity'', JInt 50)]"
        and fault = no_fault and d = example_db and name = "''Widget''" and sku = "''W-100''"
        and wv = "JInt 1" and qv = "JInt 50"]
      example_lookups st by simp
  have two: "create_product no_fault example_db
      (JObj [(''name'', JStr ''Widget''), (''sku'', JStr ''W-100''), (''price'', JStr ''NaN''),
             (''warehouse_id'', JInt 1), (''initial_quantity'', JInt 50)]) =
     (\<lparr>status = 400, body = [(''error'', JStr ''Invalid price format'')]\<rparr>,
      example_db, \<lparr>new_products = [], tx_products = [], new_inventories = [], calls = []\<rparr>)"
    using non_finite_prices[where kvs = "[(''name'', JStr ''Widget''), (''sku'', JStr ''W-100''),
        (''price'', JStr ''NaN''), (''warehouse_id'', JInt 1), (''initial_quantity'', JInt 50)]"
        and fault = no_fault and d = example_db]
      present by simp
  from one two show ?thesis by (simp add: request_of_def)
qed

section \<open>Converting the price\<close>

lemma dropWhile_none: "\<forall>x\<in>set xs. \<not> P x \<Longrightarrow> dropWhile P xs = xs"
  by (cases xs) auto

lemma strip_no_space: "\<forall>c\<in>set s. \<not> is_space c \<Longrightarrow> strip s = s"
  by (simp add: strip_def dropWhile_none)

lemma strip_cons: "\<not> is_space c \<Longrightarrow> strip (c # t) = c # rev (dropWhile is_space (rev t))"
  by (simp add: strip_def dropWhile_append3)

text \<open>A text that starts with a bracket or a brace is no decimal.\<close>

lemma parse_bracket: "c = CHR ''['' \<or> c = CHR ''{'' \<Longrightarrow> parse_decimal (c # t) = None"
  by (auto simp: parse_decimal_def strip_cons is_space_def split_sign_def lower_def
      lower_char_def parse_number_def is_digit_def Let_def)

lemma parse_wrong_type:
  "v = JNull \<or> (\<exists>b. v = JBool b) \<or> (\<exists>xs. v = JArr xs) \<or> (\<exists>m. v = JObj m) \<Longrightarrow>
   parse_decimal (py_str v) = None"
proof (elim disjE exE)
  assume "v = JNull"
  moreover have "parse_decimal ''None'' = None" by (simp add: eval_defs)
  ultimately show ?thesis by (simp add: py_str_def)
next
  fix b assume "v = JBool b"
  moreover have "parse_decimal ''True'' = None" "parse_decimal ''False'' = None"
    by (simp_all add: eval_defs)
  ultimately show ?thesis by (simp add: py_str_def)
next
  fix xs assume "v = JArr xs"
  then show ?thesis using parse_bracket[of "CHR ''[''"] by (simp add: py_str_def)
next
  fix m assume "v = JObj m"
  then show ?thesis using parse_bracket[of "CHR ''{''"] by (simp add: py_str_def)
qed

text \<open>The decimal digits, and the text of an integer.\<close>

lemma digit_cases:
  "is_digit c \<Longrightarrow>
   c = CHR ''0'' \<or> c = CHR ''1'' \<or> c = CHR ''2'' \<or> c = CHR ''3'' \<or> c = CHR ''4'' \<or>
   c = CHR ''5'' \<or> c = CHR ''6'' \<or> c = CHR ''7'' \<or> c = CHR ''8'' \<or> c = CHR ''9''"
  by (simp add: is_digit_def)

lemma digit_plain:
  assumes "is_digit c"
  shows "\<not> is_space c" "c \<noteq> CHR ''_''" "c \<noteq> CHR ''+''" "c \<noteq> CHR ''-''" "lower_char c = c"
    "c \<noteq> CHR ''i''" "c \<noteq> CHR ''n''" "c \<noteq> CHR ''s''"
proof -
  note cs = digit_cases[OF assms]
  show "\<not> is_space c" using cs by (elim disjE) (simp_all add: is_space_def)
  show "c \<noteq> CHR ''_''" using cs by (elim disjE) simp_all
  show "c \<noteq> CHR ''+''" using cs by (elim disjE) simp_all
  show "c \<noteq> CHR ''-''" using cs by (elim disjE) simp_all
  show "lower_char c = c" using cs by (elim disjE) (simp_all add: lower_char_def)
  show "c \<noteq> CHR ''i''" using cs by (elim disjE) simp_all
  show "c \<noteq> CHR ''n''" using cs by (elim disjE) simp_all
  show "c \<noteq> CHR ''s''" using cs by (elim disjE) simp_all
qed

lemma digit_char_props:
  assumes "d < 10"
  shows "is_digit (digit_char d)" "digit_val (digit_char d) = d"
proof -
  from assms have "d = 0 \<or> d = 1 \<or> d = 2 \<or> d = 3 \<or> d = 4 \<or> d = 5 \<or> d = 6 \<or> d = 7 \<or> d = 8 \<or> d = 9"
    by arith
  then show "is_digit (digit_char d)" "digit_val (digit_char d) = d"
    by (auto simp: digit_char_def is_digit_def digit_val_def)
qed

lemma nat_str_digits: "list_all is_digit (nat_str n) \<and> nat_str n \<noteq> []"
proof (induction n rule: nat_str.induct)
  case (1 n)
  show ?case
  proof (cases "n < 10")
    case True
    then show ?thesis by (subst (1 2) nat_str.simps) (simp add: digit_char_props)
  next
    case False
    with 1 show ?thesis by (subst (1 2) nat_str.simps) (simp add: digit_char_props)
  qed
qed

lemma digits_val_snoc: "digits_val (ds @ [c]) = 10 * digits_val ds + digit_val c"
  by (simp add: digits_val_def)

lemma digits_val_nat_str: "digits_val (nat_str n) = n"
proof (induction n rule: nat_str.induct)
  case (1 n)
  show ?case
  proof (cases "n < 10")
    case True
    then show ?thesis
      by (subst nat_str.simps) (simp add: digits_val_def digit_char_props)
  next
    case False
    with 1 have "digits_val (nat_str (n div 10)) = n div 10" by simp
    with False show ?thesis
      by (subst nat_str.simps) (simp add: digits_val_snoc digit_char_props)
  qed
qed

lemma coeff_digits_le: "ds \<noteq> [] \<Longrightarrow> coeff_digits ds \<le> length ds"
proof -
  assume "ds \<noteq> []"
  then have "1 \<le> length ds" by (cases ds) simp_all
  moreover have "length (dropWhile (\<lambda>c. c = CHR ''0'') ds) \<le> length ds"
    by (rule length_dropWhile_le)
  ultimately show ?thesis by (simp add: coeff_digits_def Let_def)
qed

lemma representable_digits:
  assumes "ds \<noteq> []" "length ds \<le> 4300"
  shows "representable ds [] 0"
proof -
  from coeff_digits_le[OF assms(1)] assms(2) have "coeff_digits ds \<le> 4300" by simp
  then show ?thesis
    by (simp add: representable_def MAX_PREC_def MAX_EMAX_def MIN_ETINY_def)
qed

lemma parse_number_digits:
  assumes "ds \<noteq> []" "list_all is_digit ds" "length ds \<le> 4300"
  shows "parse_number neg ds = Some (Finite neg (digits_val ds) 0)"
proof -
  from assms(2) have tw: "takeWhile is_digit ds = ds" and dw: "dropWhile is_digit ds = []"
    by (simp_all add: list_all_iff)
  from assms(1) show ?thesis
    by (simp add: parse_number_def tw dw representable_digits[OF assms(1,3)])
qed

lemma parse_unsigned_digits:
  assumes "ds \<noteq> []" "list_all is_digit ds" "length ds \<le> 4300"
  shows "(case split_sign ds of (neg, rest) \<Rightarrow>
           let r = lower rest in
           if r = ''inf'' \<or> r = ''infinity'' then Some (Infinite neg)
           else if take 3 r = ''nan'' \<and> list_all is_digit (drop 3 r)
             then (if payload_fits (drop 3 r)
                   then Some (NaN neg False (digits_val (drop 3 r))) else None)
           else if take 4 r = ''snan'' \<and> list_all is_digit (drop 4 r)
             then (if payload_fits (drop 4 r)
                   then Some (NaN neg True (digits_val (drop 4 r))) else None)
           else parse_number neg r) = Some (Finite False (digits_val ds) 0)"
proof -
  from assms obtain c t where ds: "ds = c # t" and c: "is_digit c"
    by (cases ds) auto
  have sign: "split_sign ds = (False, ds)"
    using ds digit_plain(3,4)[OF c] by (simp add: split_sign_def)
  have low: "lower ds = ds"
    using assms(2) by (simp add: lower_def list_all_iff digit_plain(5) map_idI)
  have no_inf: "ds \<noteq> ''inf''" "ds \<noteq> ''infinity''"
    using ds digit_plain(6)[OF c] by auto
  have no_nan: "take 3 ds \<noteq> ''nan''" "take 4 ds \<noteq> ''snan''"
    using ds digit_plain(7,8)[OF c] by auto
  show ?thesis
    by (simp add: sign low no_inf no_nan parse_number_digits[OF assms])
qed

lemma parse_digits:
  assumes "ds \<noteq> []" "list_all is_digit ds" "length ds \<le> 4300"
  shows "parse_decimal ds = Some (Finite False (digits_val ds) 0)"
proof -
  from assms(2) have plain: "\<forall>c\<in>set ds. \<not> is_space c" "\<forall>c\<in>set ds. c \<noteq> CHR ''_''"
    by (auto simp: list_all_iff digit_plain)
  then have clean: "filter (\<lambda>c. c \<noteq> CHR ''_'') (strip ds) = ds"
    by (simp add: strip_no_space)
  show ?thesis
    unfolding parse_decimal_def clean by (rule parse_unsigned_digits[OF assms])
qed

lemma parse_minus_digits:
  assumes "ds \<noteq> []" "list_all is_digit ds" "length ds \<le> 4300"
  shows "parse_decimal (CHR ''-'' # ds) = Some (Finite True (digits_val ds) 0)"
proof -
  from assms obtain c t where ds: "ds = c # t" and c: "is_digit c"
    by (cases ds) auto
  have minus: "\<not> is_space (CHR ''-'')" by (simp add: is_space_def)
  from assms(2) have plain: "\<forall>c\<in>set (CHR ''-'' # ds). \<not> is_space c"
      "\<forall>c\<in>set (CHR ''-'' # ds). c \<noteq> CHR ''_''"
    by (auto simp: list_all_iff digit_plain minus)
  then have clean: "filter (\<lambda>c. c \<noteq> CHR ''_'') (strip (CHR ''-'' # ds)) = CHR ''-'' # ds"
    by (simp add: strip_no_space)
  have low: "lower ds = ds"
    using assms(2) by (simp add: lower_def list_all_iff digit_plain(5) map_idI)
  have no_inf: "ds \<noteq> ''inf''" "ds \<noteq> ''infinity''"
    using ds digit_plain(6)[OF c] by auto
  have no_nan: "take 3 ds \<noteq> ''nan''" "take 4 ds \<noteq> ''snan''"
    using ds digit_plain(7,8)[OF c] by auto
  show ?thesis
    unfolding parse_decimal_def clean
    by (simp add: split_sign_def low no_inf no_nan parse_number_digits[OF assms])
qed

lemma parse_int:
  assumes "int_digits i \<le> 4300"
  shows "parse_decimal (py_str (JInt i)) = Some (Finite (i < 0) (nat \<bar>i\<bar>) 0)"
proof (cases "i < 0")
  case True
  with assms have "length (nat_str (nat (- i))) \<le> 4300" by (simp add: int_digits_def)
  with True show ?thesis
    using parse_minus_digits[of "nat_str (nat (- i))"] nat_str_digits[of "nat (- i)"]
    by (simp add: py_str_def int_str_def digits_val_nat_str)
next
  case False
  with assms have "length (nat_str (nat i)) \<le> 4300" by (simp add: int_digits_def)
  with False show ?thesis
    using parse_digits[of "nat_str (nat i)"] nat_str_digits[of "nat i"]
    by (simp add: py_str_def int_str_def digits_val_nat_str)
qed

text \<open>Once the price has passed, no later answer is one of the two price errors.\<close>

lemma after_price:
  assumes "missing_fields data = Inr []" "price_step data = Value price"
  shows "fst (create_product fault d data) \<noteq> error_response 400 ''Invalid price format'' \<and>
         fst (create_product fault d data) \<noteq> error_response 400 ''Price cannot be negative''"
proof -
  obtain o1 s1 where st1: "sku_step fault d data new_session = (o1, s1)"
    by (cases "sku_step fault d data new_session")
  obtain o2 s2 where st2: "warehouse_step fault d data s1 = (o2, s2)"
    by (cases "warehouse_step fault d data s1")
  obtain o3 d3 s3 where st3: "insert_step fault d data price s2 = (o3, d3, s3)"
    by (cases "insert_step fault d data price s2")
  have later: "fst (create_product fault d data) = error_response 409 ''SKU already exists'' \<or>
      fst (create_product fault d data) = error_response 404 ''Warehouse not found'' \<or>
      (\<exists>pid. fst (create_product fault d data) = created_response pid) \<or>
      (\<exists>e. fst (create_product fault d data) = handle_exn e)"
  proof (cases o1)
    case (Raise e)
    with assms st1 show ?thesis by (auto simp: create_product_def try_body_def)
  next
    case (Return r)
    with assms st1 sku_step_return[of fault d data new_session r s1] show ?thesis
      by (simp add: create_product_def try_body_def)
  next
    case (Value u)
    note v1 = this
    show ?thesis
    proof (cases o2)
      case (Raise e)
      with assms st1 v1 st2 show ?thesis by (auto simp: create_product_def try_body_def)
    next
      case (Return r)
      with assms st1 v1 st2 warehouse_step_return[of fault d data s1 r s2] show ?thesis
        by (simp add: create_product_def try_body_def)
    next
      case (Value u2)
      note v2 = this
      show ?thesis
      proof (cases o3)
        case (Inl e)
        with assms st1 v1 st2 v2 st3 show ?thesis
          by (auto simp: create_product_def try_body_def)
      next
        case (Inr r)
        with st3 insert_step_return[of fault d data price s2 r d3 s3]
        obtain pid where "r = created_response pid" by blast
        with Inr assms st1 v1 st2 v2 st3 show ?thesis
          by (auto simp: create_product_def try_body_def)
      qed
    qed
  qed
  have ne: "handle_exn e \<noteq> error_response 400 ''Invalid price format''"
      "handle_exn e \<noteq> error_response 400 ''Price cannot be negative''" for e
    using handle_exn_cases[of e] by (auto simp: error_response_def)
  from later show ?thesis
  proof (elim disjE exE)
    assume "fst (create_product fault d data) = error_response 409 ''SKU already exists''"
    then show ?thesis by (simp add: error_response_def)
  next
    assume "fst (create_product fault d data) = error_response 404 ''Warehouse not found''"
    then show ?thesis by (simp add: error_response_def)
  next
    fix pid assume "fst (create_product fault d data) = created_response pid"
    then show ?thesis by (simp add: error_response_def created_response_def)
  next
    fix e assume "fst (create_product fault d data) = handle_exn e"
    then show ?thesis using ne[of e] by simp
  qed
qed

text \<open>
  C4, as stated, fails where a numeric text lies outside the range of the decimal type.
  The text \<open>-1e1000000000000000000\<close> is a number below zero and the text
  \<open>0e1000000000000000000\<close> is zero; the conversion of either raises
  \<open>InvalidOperation\<close>, and the answer is 400 ``Invalid price format'': not the
  negative-price error for the first, and no acceptance for the second.
\<close>

theorem price_range_counterexample:
  "create_product no_fault example_db
      (request_of (JStr ''Widget'') (JStr ''W-100'') (JStr ''-1e1000000000000000000'')
         (JInt 1) (JInt 50)) =
     (error_response 400 ''Invalid price format'', example_db,
      \<lparr>new_products = [], tx_products = [], new_inventories = [], calls = []\<rparr>) \<and>
   create_product no_fault example_db
      (request_of (JStr ''Widget'') (JStr ''W-100'') (JStr ''0e1000000000000000000'')
         (JInt 1) (JInt 50)) =
     (error_response 400 ''Invalid price format'', example_db,
      \<lparr>new_products = [], tx_products = [], new_inventories = [], calls = []\<rparr>)"
  by (simp add: eval_defs)

text \<open>
  C4, amended. With every required field present: a price that is a string which
  \<open>Decimal\<close> does not convert (a text that is no number, or a number outside the
  range of the decimal type), or a value of the wrong type (\<open>None\<close>, a bool, a list,
  a dict), is answered 400 ``Invalid price format'', and so is a NaN; a price that
  converts to a decimal below zero, among them every negative integer of at most 4300
  digits, is answered 400 ``Price cannot be negative'', a different error; a price that
  converts to zero (the integer 0, or any text whose decimal has the coefficient 0, of
  either sign) passes the price step and no later answer is one of the two price errors.
  Each price error is answered before any call on the store.
\<close>

theorem price_validation:
  assumes "\<forall>f\<in>set required_fields. f \<in> set (map fst kvs)" "map_of kvs ''price'' = Some pv"
  shows
   "((pv = JNull \<or> (\<exists>b. pv = JBool b) \<or> (\<exists>xs. pv = JArr xs) \<or> (\<exists>m. pv = JObj m) \<or>
      (\<exists>s. pv = JStr s \<and> parse_decimal s = None) \<or>
      (\<exists>neg sg p. parse_decimal (py_str pv) = Some (NaN neg sg p))) \<longrightarrow>
       create_product fault d (JObj kvs) =
         (\<lparr>status = 400, body = [(''error'', JStr ''Invalid price format'')]\<rparr>,
          d, \<lparr>new_products = [], tx_products = [], new_inventories = [], calls = []\<rparr>)) \<and>
    (((\<exists>i. pv = JInt i \<and> i < 0 \<and> int_digits i \<le> 4300) \<or>
      (\<exists>price. parse_decimal (py_str pv) = Some price \<and> less_zero price = Inr True)) \<longrightarrow>
       create_product fault d (JObj kvs) =
         (\<lparr>status = 400, body = [(''error'', JStr ''Price cannot be negative'')]\<rparr>,
          d, \<lparr>new_products = [], tx_products = [], new_inventories = [], calls = []\<rparr>)) \<and>
    ((pv = JInt 0 \<or> (\<exists>neg e. parse_decimal (py_str pv) = Some (Finite neg 0 e))) \<longrightarrow>
       (\<exists>neg e. price_step (JObj kvs) = Value (Finite neg 0 e)) \<and>
       fst (create_product fault d (JObj kvs)) \<noteq>
         \<lparr>status = 400, body = [(''error'', JStr ''Invalid price format'')]\<rparr> \<and>
       fst (create_product fault d (JObj kvs)) \<noteq>
         \<lparr>status = 400, body = [(''error'', JStr ''Price cannot be negative'')]\<rparr>)"
proof (intro conjI impI)
  assume a: "pv = JNull \<or> (\<exists>b. pv = JBool b) \<or> (\<exists>xs. pv = JArr xs) \<or> (\<exists>m. pv = JObj m) \<or>
      (\<exists>s. pv = JStr s \<and> parse_decimal s = None) \<or>
      (\<exists>neg sg p. parse_decimal (py_str pv) = Some (NaN neg sg p))"
  have "price_step (JObj kvs) = Return (error_response 400 ''Invalid price format'')"
  proof (cases "parse_decimal (py_str pv)")
    case None
    with assms(2) show ?thesis
      by (simp add: price_step_def Decimal_def price_handler_def)
  next
    case (Some price)
    with a parse_wrong_type[of pv] obtain neg sg p where "price = NaN neg sg p"
      by (auto simp: py_str_def)
    with Some assms(2) show ?thesis
      by (simp add: price_step_def Decimal_def price_handler_def)
  qed
  then show "create_product fault d (JObj kvs) =
         (\<lparr>status = 400, body = [(''error'', JStr ''Invalid price format'')]\<rparr>,
          d, \<lparr>new_products = [], tx_products = [], new_inventories = [], calls = []\<rparr>)"
    using price_rejected[OF assms(1)] by (simp add: error_response_def)
next
  assume a: "(\<exists>i. pv = JInt i \<and> i < 0 \<and> int_digits i \<le> 4300) \<or>
      (\<exists>price. parse_decimal (py_str pv) = Some price \<and> less_zero price = Inr True)"
  have "\<exists>price. parse_decimal (py_str pv) = Some price \<and> less_zero price = Inr True"
  proof (cases "\<exists>i. pv = JInt i \<and> i < 0 \<and> int_digits i \<le> 4300")
    case True
    then obtain i where i: "pv = JInt i" "i < 0" "int_digits i \<le> 4300" by blast
    from parse_int[OF i(3)] i(1,2) show ?thesis by simp
  next
    case False
    with a show ?thesis by blast
  qed
  then obtain price where "parse_decimal (py_str pv) = Some price" "less_zero price = Inr True"
    by blast
  with assms(2) have "price_step (JObj kvs) = Return (error_response 400 ''Price cannot be negative'')"
    by (simp add: price_step_def Decimal_def)
  then show "create_product fault d (JObj kvs) =
         (\<lparr>status = 400, body = [(''error'', JStr ''Price cannot be negative'')]\<rparr>,
          d, \<lparr>new_products = [], tx_products = [], new_inventories = [], calls = []\<rparr>)"
    using price_rejected[OF assms(1)] by (simp add: error_response_def)
next
  assume a: "pv = JInt 0 \<or> (\<exists>neg e. parse_decimal (py_str pv) = Some (Finite neg 0 e))"
  have "int_digits 0 \<le> 4300" by (simp add: int_digits_def nat_str.simps)
  from parse_int[OF this] a obtain neg e where z: "parse_decimal (py_str pv) = Some (Finite neg 0 e)"
    by auto
  with assms(2) have v: "price_step (JObj kvs) = Value (Finite neg 0 e)"
    by (simp add: price_step_def Decimal_def)
  then show "\<exists>neg e. price_step (JObj kvs) = Value (Finite neg 0 e)" by blast
  from after_price[OF none_missing[OF assms(1)] v, of fault d]
  show "fst (create_product fault d (JObj kvs)) \<noteq>
         \<lparr>status = 400, body = [(''error'', JStr ''Invalid price format'')]\<rparr>"
    and "fst (create_product fault d (JObj kvs)) \<noteq>
         \<lparr>status = 400, body = [(''error'', JStr ''Price cannot be negative'')]\<rparr>"
    by (simp_all add: error_response_def)
qed

theorem price_validation_witness:
  "create_product no_fault example_db
      (request_of (JStr ''Widget'') (JStr ''W-100'') (JStr ''abc'') (JInt 1) (JInt 50)) =
     (\<lparr>status = 400, body = [(''error'', JStr ''Invalid price format'')]\<rparr>,
      example_db, \<lparr>new_products = [], tx_products = [], new_inventories = [], calls = []\<rparr>) \<and>
   create_product no_fault example_db
      (request_of (JStr ''Widget'') (JStr ''W-100'') (JBool True) (JInt 1) (JInt 50)) =
     (\<lparr>status = 400, body = [(''error'', JStr ''Invalid price format'')]\<rparr>,
      example_db, \<lparr>new_products = [], tx_products = [], new_inventories = [], calls = []\<rparr>) \<and>
   create_product no_fault example_db
      (request_of (JStr ''Widget'') (JStr ''W-100'') (JInt (- 5)) (JInt 1) (JInt 50)) =
     (\<lparr>status = 400, body = [(''error'', JStr ''Price cannot be negative'')]\<rparr>,
      example_db, \<lparr>new_products = [], tx_products = [], new_inventories = [], calls = []\<rparr>) \<and>
   fst (create_product no_fault example_db
      (request_of (JStr ''Widget'') (JStr ''W-100'') (JInt 0) (JInt 1) (JInt 50))) \<noteq>
     \<lparr>status = 400, body = [(''error'', JStr ''Invalid price format'')]\<rparr> \<and>
   fst (create_product no_fault example_db
      (request_of (JStr ''Widget'') (JStr ''W-100'') (JInt 0) (JInt 1) (JInt 50))) \<noteq>
     \<lparr>status = 400, body = [(''error'', JStr ''Price cannot be negative'')]\<rparr>"
proof -
  have present: "\<forall>f\<in>set required_fields. f \<in> set (map fst
      [(''name'', nv), (''sku'', sv), (''price'', pv), (''warehouse_id'', wv),
       (''initial_quantity'', qv)])" for nv sv pv wv qv :: json
    by (simp add: required_fields_def)
  have price: "map_of [(''name'', nv), (''sku'', sv), (''price'', pv), (''warehouse_id'', wv),
       (''initial_quantity'', qv)] ''price'' = Some pv" for nv sv pv wv qv :: json
    by simp
  have abc: "parse_decimal ''abc'' = None" by (simp add: eval_defs)
  have five: "int_digits (- 5) \<le> 4300" by (simp add: int_digits_def nat_str.simps)
  from price_validation[OF present[of "JStr ''Widget''" "JStr ''W-100''" "JStr ''abc''" "JInt 1" "JInt 50"]
      price[of "JStr ''Widget''" "JStr ''W-100''" "JStr ''abc''" "JInt 1" "JInt 50"], where fault = no_fault and d = example_db] abc
  have one: "create_product no_fault example_db
      (JObj [(''name'', JStr ''Widget''), (''sku'', JStr ''W-100''), (''price'', JStr ''abc''),
             (''warehouse_id'', JInt 1), (''initial_quantity'', JInt 50)]) =
     (\<lparr>status = 400, body = [(''error'', JStr ''Invalid price format'')]\<rparr>,
      example_db, \<lparr>new_products = [], tx_products = [], new_inventories = [], calls = []\<rparr>)"
    by auto
  from price_validation[OF present[of "JStr ''Widget''" "JStr ''W-100''" "JBool True" "JInt 1" "JInt 50"]
      price[of "JStr ''Widget''" "JStr ''W-100''" "JBool True" "JInt 1" "JInt 50"], where fault = no_fault and d = example_db]
  have two: "create_product no_fault example_db
      (JObj [(''name'', JStr ''Widget''), (''sku'', JStr ''W-100''), (''price'', JBool True),
             (''warehouse_id'', JInt 1), (''initial_quantity'', JInt 50)]) =
     (\<lparr>status = 400, body = [(''error'', JStr ''Invalid price format'')]\<rparr>,
      example_db, \<lparr>new_products = [], tx_products = [], new_inventories = [], calls = []\<rparr>)"
    by auto
  from price_validation[OF present[of "JStr ''Widget''" "JStr ''W-100''" "JInt (- 5)" "JInt 1" "JInt 50"]
      price[of "JStr ''Widget''" "JStr ''W-100''" "JInt (- 5)" "JInt 1" "JInt 50"], where fault = no_fault and d = example_db] five
  have three: "create_product no_fault example_db
      (JObj [(''name'', JStr ''Widget''), (''sku'', JStr ''W-100''), (''price'', JInt (- 5)),
             (''warehouse_id'', JInt 1), (''initial_quantity'', JInt 50)]) =
     (\<lparr>status = 400, body = [(''error'', JStr ''Price cannot be negative'')]\<rparr>,
      example_db, \<lparr>new_products = [], tx_products = [], new_inventories = [], calls = []\<rparr>)"
    by auto
  from price_validation[OF present[of "JStr ''Widget''" "JStr ''W-100''" "JInt 0" "JInt 1" "JInt 50"]
      price[of "JStr ''Widget''" "JStr ''W-100''" "JInt 0" "JInt 1" "JInt 50"], where fault = no_fault and d = example_db]
  have four: "fst (create_product no_fault example_db
      (JObj [(''name'', JStr ''Widget''), (''sku'', JStr ''W-100''), (''price'', JInt 0),
             (''warehouse_id'', JInt 1), (''initial_quantity'', JInt 50)])) \<noteq>
     \<lparr>status = 400, body = [(''error'', JStr ''Invalid price format'')]\<rparr> \<and>
    fst (create_product no_fault example_db
      (JObj [(''name'', JStr ''Widget''), (''sku'', JStr ''W-100''), (''price'', JInt 0),
             (''warehouse_id'', JInt 1), (''initial_quantity'', JInt 50)])) \<noteq>
     \<lparr>status = 400, body = [(''error'', JStr ''Price cannot be negative'')]\<rparr>"
    by auto
  from one two three four show ?thesis by (simp add: request_of_def)
qed

end
